theory Spec2Isabelle
  imports Complex_Main
begin

section \<open>Python values and exceptions\<close>

text \<open>
  The script \<^verbatim>\<open>src/cmd/flux-account-create-elastic-logs.py\<close> works on decoded JSON:
  a job is a dictionary from attribute names to values, and a value is \<^verbatim>\<open>None\<close>, a
  bool, an int (unbounded), a float, a string, a list or a dictionary with string keys.
  A float is represented by the rational number it denotes (every finite double is one);
  infinities, NaN and the sign of zero are not represented, and an operation whose exact
  result is not a double rounds it with the function \<open>rnd\<close> that the environment
  supplies (see \<open>env\<close> below).
\<close>

datatype pyval =
    PNone
  | PBool bool
  | PInt int
  | PFloat rat
  | PStr string
  | PList "pyval list"
  | PDict "(string \<times> pyval) list"

type_synonym dict = "string \<rightharpoonup> pyval"

text \<open>
  The exceptions that the script can meet. \<open>EnvironmentError\<close> (an alias of
  \<^verbatim>\<open>OSError\<close>) carries its \<^verbatim>\<open>strerror\<close>; \<open>JSONDecodeError\<close> is a subclass of
  \<^verbatim>\<open>ValueError\<close>; \<open>SystemExit\<close> carries the status given to \<^verbatim>\<open>sys.exit\<close> and is
  not a subclass of \<^verbatim>\<open>Exception\<close>.
\<close>

datatype error =
    KeyError
  | TypeError
  | ValueError
  | AttributeError
  | JSONDecodeError
  | EnvironmentError string
  | SystemExit nat
  | OtherException string

fun is_KeyError :: "error \<Rightarrow> bool" where
  "is_KeyError KeyError = True"
| "is_KeyError _ = False"

fun is_TypeError :: "error \<Rightarrow> bool" where
  "is_TypeError TypeError = True"
| "is_TypeError _ = False"

fun is_ValueError :: "error \<Rightarrow> bool" where
  "is_ValueError ValueError = True"
| "is_ValueError JSONDecodeError = True"
| "is_ValueError _ = False"

fun is_EnvironmentError :: "error \<Rightarrow> bool" where
  "is_EnvironmentError (EnvironmentError _) = True"
| "is_EnvironmentError _ = False"

fun is_Exception :: "error \<Rightarrow> bool" where
  "is_Exception (SystemExit _) = False"
| "is_Exception _ = True"

text \<open>Sequencing of steps that may raise: the first exception ends the computation.\<close>

definition bindE :: "error + 'a \<Rightarrow> ('a \<Rightarrow> error + 'b) \<Rightarrow> error + 'b" where
  "bindE m f = (case m of Inl e \<Rightarrow> Inl e | Inr x \<Rightarrow> f x)"

section \<open>The operating system and the standard library\<close>

record passwd =
  pw_name :: string
  pw_gid :: int

text \<open>
  What the script takes from outside: the password and group databases
  (\<^verbatim>\<open>pwd.getpwuid\<close>, \<^verbatim>\<open>grp.getgrgid\<close>), the conversion
  \<^verbatim>\<open>datetime.datetime.fromtimestamp(t, tz=utc).isoformat()\<close>, the rounding of an exact
  result to the nearest double, \<^verbatim>\<open>str\<close> of a float or a container, \<^verbatim>\<open>float\<close> of a
  string, and the order of two lists. Every theorem below holds for any such functions.
\<close>

record env =
  rnd :: "rat \<Rightarrow> rat"
  getpwuid :: "pyval \<Rightarrow> error + passwd"
  getgrgid :: "pyval \<Rightarrow> error + string"
  fromtimestamp_iso :: "pyval \<Rightarrow> error + string"
  str_other :: "pyval \<Rightarrow> string"
  float_of_str :: "string \<Rightarrow> rat option"
  list_lt :: "pyval list \<Rightarrow> pyval list \<Rightarrow> bool option"

section \<open>Python's operators on values\<close>

text \<open>A bool is an int in arithmetic, comparison and hashing (\<^verbatim>\<open>True == 1\<close>).\<close>

datatype number = NInt int | NFloat rat

fun as_number :: "pyval \<Rightarrow> number option" where
  "as_number (PBool b) = Some (NInt (if b then 1 else 0))"
| "as_number (PInt i) = Some (NInt i)"
| "as_number (PFloat q) = Some (NFloat q)"
| "as_number _ = None"

fun exact :: "number \<Rightarrow> rat" where
  "exact (NInt i) = of_int i"
| "exact (NFloat q) = q"

fun to_float :: "env \<Rightarrow> number \<Rightarrow> rat" where
  "to_float E (NInt i) = rnd E (of_int i)"
| "to_float E (NFloat q) = q"

text \<open>\<^verbatim>\<open>a - b\<close>: ints subtract exactly, a float operand makes the result a float.\<close>

definition py_sub :: "env \<Rightarrow> pyval \<Rightarrow> pyval \<Rightarrow> error + pyval" where
  "py_sub E a b =
     (case (as_number a, as_number b) of
        (Some (NInt i), Some (NInt j)) \<Rightarrow> Inr (PInt (i - j))
      | (Some x, Some y) \<Rightarrow> Inr (PFloat (rnd E (to_float E x - to_float E y)))
      | _ \<Rightarrow> Inl TypeError)"

text \<open>An int that counts repetitions of a sequence (\<^verbatim>\<open>"ab" * 2\<close>).\<close>

fun as_index :: "pyval \<Rightarrow> int option" where
  "as_index (PBool b) = Some (if b then 1 else 0)"
| "as_index (PInt i) = Some i"
| "as_index _ = None"

definition py_mul :: "env \<Rightarrow> pyval \<Rightarrow> pyval \<Rightarrow> error + pyval" where
  "py_mul E a b =
     (case (as_number a, as_number b) of
        (Some (NInt i), Some (NInt j)) \<Rightarrow> Inr (PInt (i * j))
      | (Some x, Some y) \<Rightarrow> Inr (PFloat (rnd E (to_float E x * to_float E y)))
      | _ \<Rightarrow>
        (case (a, as_index b) of
           (PStr s, Some n) \<Rightarrow> Inr (PStr (concat (replicate (nat n) s)))
         | (PList xs, Some n) \<Rightarrow> Inr (PList (concat (replicate (nat n) xs)))
         | _ \<Rightarrow>
           (case (as_index a, b) of
              (Some n, PStr s) \<Rightarrow> Inr (PStr (concat (replicate (nat n) s)))
            | (Some n, PList xs) \<Rightarrow> Inr (PList (concat (replicate (nat n) xs)))
            | _ \<Rightarrow> Inl TypeError)))"

text \<open>Rounding to the nearest integer, ties to the even one.\<close>

definition half_even :: "rat \<Rightarrow> int" where
  "half_even q =
     (let f = \<lfloor>q\<rfloor>; d = q - of_int f
      in if d < 1 / 2 then f
         else if 1 / 2 < d then f + 1
         else if even f then f else f + 1)"

text \<open>
  \<^verbatim>\<open>round(x, 1)\<close>: an int (or bool) is returned as an int unchanged; a float is rounded
  to one decimal, ties to even on its exact value, and the decimal is read back as a
  double.
\<close>

definition py_round1 :: "env \<Rightarrow> pyval \<Rightarrow> error + pyval" where
  "py_round1 E a =
     (case as_number a of
        Some (NInt i) \<Rightarrow> Inr (PInt i)
      | Some (NFloat q) \<Rightarrow> Inr (PFloat (rnd E (of_int (half_even (q * 10)) / 10)))
      | None \<Rightarrow> Inl TypeError)"

text \<open>\<^verbatim>\<open>x == True\<close>.\<close>

definition py_eq_True :: "pyval \<Rightarrow> bool" where
  "py_eq_True a = (case as_number a of Some x \<Rightarrow> exact x = 1 | None \<Rightarrow> False)"

text \<open>Strings compare by code point, lexicographically.\<close>

fun str_lt :: "string \<Rightarrow> string \<Rightarrow> bool" where
  "str_lt [] [] = False"
| "str_lt [] (y # ys) = True"
| "str_lt (x # xs) [] = False"
| "str_lt (x # xs) (y # ys) =
     (if (of_char x :: nat) < of_char y then True
      else if (of_char y :: nat) < of_char x then False
      else str_lt xs ys)"

text \<open>
  \<^verbatim>\<open>a < b\<close>: numbers compare by their exact values, strings with strings, lists with
  lists (by the environment's \<open>list_lt\<close>, which is \<open>None\<close> where an element comparison
  raises); every other pair, and so a string with a number, raises \<^verbatim>\<open>TypeError\<close>.
\<close>

definition py_lt :: "env \<Rightarrow> pyval \<Rightarrow> pyval \<Rightarrow> error + bool" where
  "py_lt E a b =
     (case (as_number a, as_number b) of
        (Some x, Some y) \<Rightarrow> Inr (exact x < exact y)
      | _ \<Rightarrow>
        (case (a, b) of
           (PStr s, PStr t) \<Rightarrow> Inr (str_lt s t)
         | (PList xs, PList ys) \<Rightarrow>
             (case list_lt E xs ys of Some r \<Rightarrow> Inr r | None \<Rightarrow> Inl TypeError)
         | _ \<Rightarrow> Inl TypeError))"

text \<open>Lists and dictionaries cannot be keys of a dictionary.\<close>

fun hashable :: "pyval \<Rightarrow> bool" where
  "hashable (PList _) = False"
| "hashable (PDict _) = False"
| "hashable _ = True"

text \<open>\<^verbatim>\<open>str(x)\<close>.\<close>

function str_nat :: "nat \<Rightarrow> string" where
  "str_nat n =
     (if n < 10 then [''0123456789'' ! n]
      else str_nat (n div 10) @ [''0123456789'' ! (n mod 10)])"
  by pat_completeness auto
termination
  by (relation "measure (\<lambda>n. n)") auto

declare str_nat.simps [simp del]

definition str_int :: "int \<Rightarrow> string" where
  "str_int i = (if i < 0 then CHR ''-'' # str_nat (nat (- i)) else str_nat (nat i))"

fun py_str :: "env \<Rightarrow> pyval \<Rightarrow> string" where
  "py_str E PNone = ''None''"
| "py_str E (PBool b) = (if b then ''True'' else ''False'')"
| "py_str E (PInt i) = str_int i"
| "py_str E (PStr s) = s"
| "py_str E v = str_other E v"

text \<open>
  \<^verbatim>\<open>d.get(key, default)\<close> on a decoded JSON value: a value that is not a dictionary has
  no \<^verbatim>\<open>get\<close>.
\<close>

definition py_get :: "pyval \<Rightarrow> string \<Rightarrow> pyval \<Rightarrow> error + pyval" where
  "py_get d k dflt =
     (case d of
        PDict kvs \<Rightarrow> Inr (case map_of kvs k of Some v \<Rightarrow> v | None \<Rightarrow> dflt)
      | _ \<Rightarrow> Inl AttributeError)"

text \<open>\<^verbatim>\<open>job.get(key)\<close> on a job: \<^verbatim>\<open>None\<close> when the job has no such attribute.\<close>

definition get :: "dict \<Rightarrow> string \<Rightarrow> pyval" where
  "get j k = (case j k of Some v \<Rightarrow> v | None \<Rightarrow> PNone)"

section \<open>Identity lookups\<close>

text \<open>
  \<^verbatim>\<open>get_username\<close>, \<^verbatim>\<open>get_gid\<close> and \<^verbatim>\<open>get_groupname\<close> catch
  \<^verbatim>\<open>(KeyError, ValueError, TypeError)\<close> and their subclasses; any other exception of
  the lookup goes on to the caller.
\<close>

definition caught_lookup :: "error \<Rightarrow> bool" where
  "caught_lookup e = (is_KeyError e \<or> is_ValueError e \<or> is_TypeError e)"

definition get_username :: "env \<Rightarrow> pyval \<Rightarrow> error + pyval" where
  "get_username E uid =
     (case getpwuid E uid of
        Inr p \<Rightarrow> Inr (PStr (pw_name p))
      | Inl e \<Rightarrow> if caught_lookup e then Inr (PStr (py_str E uid)) else Inl e)"

definition get_gid :: "env \<Rightarrow> pyval \<Rightarrow> error + pyval" where
  "get_gid E uid =
     (case getpwuid E uid of
        Inr p \<Rightarrow> Inr (PInt (pw_gid p))
      | Inl e \<Rightarrow> if caught_lookup e then Inr (PStr []) else Inl e)"

definition get_groupname :: "env \<Rightarrow> pyval \<Rightarrow> error + pyval" where
  "get_groupname E gid =
     (case getgrgid E gid of
        Inr g \<Rightarrow> Inr (PStr g)
      | Inl e \<Rightarrow> if caught_lookup e then Inr (PStr []) else Inl e)"

section \<open>The output record\<close>

text \<open>
  \<^verbatim>\<open>create_job_dicts\<close> builds every record on one skeleton of nested dictionaries,
  created empty before any field is written and never removed: \<^verbatim>\<open>rec["event"]\<close>,
  \<^verbatim>\<open>rec["job"]\<close>, \<^verbatim>\<open>rec["job"]["node"]\<close>, \<^verbatim>\<open>rec["job"]["task"]\<close>,
  \<^verbatim>\<open>rec["job"]["proc"]\<close>, \<^verbatim>\<open>rec["user"]\<close>, \<^verbatim>\<open>rec["group"]\<close> and
  \<^verbatim>\<open>rec["schema"]\<close>. The record type has one dictionary for each; \<open>rec_job\<close> holds
  the keys of \<^verbatim>\<open>rec["job"]\<close> other than \<^verbatim>\<open>node\<close>, \<^verbatim>\<open>task\<close> and \<^verbatim>\<open>proc\<close>. A key
  that was never assigned is \<open>None\<close> in the map; a key assigned Python's \<^verbatim>\<open>None\<close>
  is \<open>Some PNone\<close>.
\<close>

record out_rec =
  rec_event :: dict
  rec_job :: dict
  rec_node :: dict
  rec_task :: dict
  rec_proc :: dict
  rec_user :: dict
  rec_group :: dict
  rec_schema :: dict

type_synonym queue_limits = "string \<rightharpoonup> pyval"

definition OUTCOME_CONVERSION :: "(int \<times> string) list" where
  "OUTCOME_CONVERSION = [(1, ''COMPLETED''), (2, ''FAILED''), (4, ''CANCELLED''), (8, ''TIMEOUT'')]"

text \<open>
  A dictionary finds a key by hash and equality, and a number is equal to the int of the
  same value (\<^verbatim>\<open>1.0 == 1\<close>, \<^verbatim>\<open>True == 1\<close>): \<open>int_key\<close> is the int that a value is
  equal to, if there is one.
\<close>

definition int_key :: "pyval \<Rightarrow> int option" where
  "int_key v =
     (case as_number v of
        None \<Rightarrow> None
      | Some x \<Rightarrow> (if of_int \<lfloor>exact x\<rfloor> = exact x then Some \<lfloor>exact x\<rfloor> else None))"

text \<open>
  \<^verbatim>\<open>OUTCOME_CONVERSION[code]\<close>: an unhashable code raises \<^verbatim>\<open>TypeError\<close>, a code
  that is equal to no key raises \<^verbatim>\<open>KeyError\<close>.
\<close>

definition outcome_of :: "pyval \<Rightarrow> error + string" where
  "outcome_of code =
     (if \<not> hashable code then Inl TypeError
      else case int_key code of
        None \<Rightarrow> Inl KeyError
      | Some i \<Rightarrow>
          (case map_of OUTCOME_CONVERSION i of
             Some s \<Rightarrow> Inr s
           | None \<Rightarrow> Inl KeyError))"

text \<open>Lines 156 to 171: the skeleton, the dataset tag and the schema version.\<close>

definition new_rec :: "env \<Rightarrow> out_rec" where
  "new_rec E =
     \<lparr> rec_event = [''dataset'' \<mapsto> PStr ''flux.joblog''],
       rec_job = Map.empty,
       rec_node = [''list'' \<mapsto> PInt (- 1)],
       rec_task = Map.empty,
       rec_proc = Map.empty,
       rec_user = Map.empty,
       rec_group = Map.empty,
       rec_schema = [''version_number'' \<mapsto> PFloat (rnd E (22 / 10))] \<rparr>"

text \<open>Lines 174 to 195: every key is assigned \<^verbatim>\<open>job.get(...)\<close>, whatever it returns.\<close>

definition copy_fields :: "dict \<Rightarrow> out_rec \<Rightarrow> out_rec" where
  "copy_fields j r =
     r\<lparr> rec_job := (rec_job r)
          (''id'' \<mapsto> get j ''id'',
           ''name'' \<mapsto> get j ''name'',
           ''priority'' \<mapsto> get j ''priority'',
           ''state'' \<mapsto> get j ''state'',
           ''bank'' \<mapsto> get j ''bank'',
           ''queue'' \<mapsto> get j ''queue'',
           ''project'' \<mapsto> get j ''project'',
           ''jobspec'' \<mapsto> get j ''jobspec'',
           ''eventlog'' \<mapsto> get j ''eventlog'',
           ''requested_duration'' \<mapsto> get j ''duration'',
           ''cwd'' \<mapsto> get j ''cwd'',
           ''urgency'' \<mapsto> get j ''urgency'',
           ''success'' \<mapsto> get j ''success'',
           ''exit_code'' \<mapsto> get j ''waitstatus'',
           ''t_submit'' \<mapsto> get j ''t_submit'',
           ''t_run'' \<mapsto> get j ''t_run'',
           ''t_inactive'' \<mapsto> get j ''t_inactive'',
           ''t_cleanup'' \<mapsto> get j ''t_cleanup''),
        rec_user := (rec_user r)(''id'' \<mapsto> get j ''userid''),
        rec_node := (rec_node r)
          (''list'' \<mapsto> get j ''nodelist'',
           ''count'' \<mapsto> get j ''nnodes''),
        rec_task := (rec_task r)(''count'' \<mapsto> get j ''ntasks'') \<rparr>"

text \<open>Lines 197 to 199.\<close>

definition set_outcome :: "dict \<Rightarrow> out_rec \<Rightarrow> error + out_rec" where
  "set_outcome j r =
     (if get j ''result'' \<noteq> PNone
      then bindE (outcome_of (get j ''result''))
             (\<lambda>s. Inr (r\<lparr> rec_event := (rec_event r)(''outcome'' \<mapsto> PStr s) \<rparr>))
      else Inr r)"

text \<open>
  Lines 201 to 205: \<^verbatim>\<open>queue_timelimits.get(queue, "UNKNOWN")\<close>. The keys of the table
  are strings; a queue that is not a string finds none of them, and an unhashable one
  raises.
\<close>

definition set_queue_maxtimelimit :: "queue_limits \<Rightarrow> out_rec \<Rightarrow> error + out_rec" where
  "set_queue_maxtimelimit qtl r =
     (let q = get (rec_job r) ''queue''
      in if q \<noteq> PNone
         then (if \<not> hashable q then Inl TypeError
               else Inr (r\<lparr> rec_job := (rec_job r)
                      (''queue_maxtimelimit'' \<mapsto>
                         (case q of
                            PStr s \<Rightarrow> (case qtl s of Some v \<Rightarrow> v | None \<Rightarrow> PStr ''UNKNOWN'')
                          | _ \<Rightarrow> PStr ''UNKNOWN'')) \<rparr>))
         else Inr r)"

text \<open>Lines 207 to 211; the group name is looked up from \<^verbatim>\<open>rec["group"]["id"]\<close>.\<close>

definition set_identity :: "env \<Rightarrow> out_rec \<Rightarrow> error + out_rec" where
  "set_identity E r =
     (let uid = get (rec_user r) ''id''
      in if uid \<noteq> PNone
         then bindE (get_username E uid) (\<lambda>name.
              bindE (get_gid E uid) (\<lambda>gid.
              bindE (get_groupname E gid) (\<lambda>gname.
                Inr (r\<lparr> rec_user := (rec_user r)(''name'' \<mapsto> name),
                        rec_group := (rec_group r)(''id'' \<mapsto> gid, ''name'' \<mapsto> gname) \<rparr>))))
         else Inr r)"

text \<open>Lines 214 to 231: the timestamps as ISO 8601 text.\<close>

definition set_submittime :: "env \<Rightarrow> dict \<Rightarrow> out_rec \<Rightarrow> error + out_rec" where
  "set_submittime E j r =
     (if get j ''t_submit'' \<noteq> PNone
      then bindE (fromtimestamp_iso E (get j ''t_submit''))
             (\<lambda>s. Inr (r\<lparr> rec_job := (rec_job r)
                     (''submittime_epoch'' \<mapsto> get j ''t_submit'',
                      ''submittime'' \<mapsto> PStr s) \<rparr>))
      else Inr r)"

definition set_start :: "env \<Rightarrow> dict \<Rightarrow> out_rec \<Rightarrow> error + out_rec" where
  "set_start E j r =
     (if get j ''t_run'' \<noteq> PNone
      then bindE (fromtimestamp_iso E (get j ''t_run''))
             (\<lambda>s. Inr (r\<lparr> rec_event := (rec_event r)(''start'' \<mapsto> PStr s) \<rparr>))
      else Inr r)"

definition set_end :: "env \<Rightarrow> dict \<Rightarrow> out_rec \<Rightarrow> error + out_rec" where
  "set_end E j r =
     (if get j ''t_inactive'' \<noteq> PNone
      then bindE (fromtimestamp_iso E (get j ''t_inactive''))
             (\<lambda>s. Inr (r\<lparr> rec_event := (rec_event r)(''end'' \<mapsto> PStr s) \<rparr>))
      else Inr r)"

definition set_timelimit :: "env \<Rightarrow> dict \<Rightarrow> out_rec \<Rightarrow> error + out_rec" where
  "set_timelimit E j r =
     (if get j ''expiration'' \<noteq> PNone
      then bindE (fromtimestamp_iso E (get j ''expiration''))
             (\<lambda>s. Inr (r\<lparr> rec_job := (rec_job r)(''timelimit'' \<mapsto> PStr s) \<rparr>))
      else Inr r)"

text \<open>
  Lines 233 to 240: \<^verbatim>\<open>t_eligible = t_run - (t_run - t_depend)\<close>, its ISO text, and
  \<^verbatim>\<open>queue_time = round(t_run - t_eligible, 1)\<close>.
\<close>

definition set_eligible :: "env \<Rightarrow> dict \<Rightarrow> out_rec \<Rightarrow> error + out_rec" where
  "set_eligible E j r =
     (if get j ''t_depend'' \<noteq> PNone \<and> get j ''t_run'' \<noteq> PNone
      then bindE (py_sub E (get j ''t_run'') (get j ''t_depend'')) (\<lambda>d.
           bindE (py_sub E (get j ''t_run'') d) (\<lambda>t_eligible.
           bindE (fromtimestamp_iso E t_eligible) (\<lambda>s.
           bindE (py_sub E (get j ''t_run'') t_eligible) (\<lambda>w.
           bindE (py_round1 E w) (\<lambda>q.
             Inr (r\<lparr> rec_job := (rec_job r)
                    (''eligibletime'' \<mapsto> PStr s,
                     ''queue_time'' \<mapsto> q) \<rparr>))))))
      else Inr r)"

text \<open>Lines 242 to 247.\<close>

definition set_duration :: "env \<Rightarrow> dict \<Rightarrow> out_rec \<Rightarrow> error + out_rec" where
  "set_duration E j r =
     (if get j ''t_inactive'' \<noteq> PNone \<and> get j ''t_run'' \<noteq> PNone
      then bindE (py_sub E (get j ''t_inactive'') (get j ''t_run'')) (\<lambda>d.
           bindE (py_round1 E d) (\<lambda>secs.
           bindE (py_mul E secs (PInt (10 ^ 9))) (\<lambda>ns.
             Inr (r\<lparr> rec_event := (rec_event r)
                    (''duration_seconds'' \<mapsto> secs,
                     ''duration'' \<mapsto> ns) \<rparr>))))
      else Inr r)"

text \<open>Lines 249 to 251.\<close>

definition set_proc_count :: "env \<Rightarrow> dict \<Rightarrow> out_rec \<Rightarrow> error + out_rec" where
  "set_proc_count E j r =
     (if get j ''nnodes'' \<noteq> PNone \<and> get j ''ntasks'' \<noteq> PNone
      then bindE (py_mul E (get j ''nnodes'') (get j ''ntasks''))
             (\<lambda>n. Inr (r\<lparr> rec_proc := (rec_proc r)(''count'' \<mapsto> n) \<rparr>))
      else Inr r)"

text \<open>Lines 253 to 260.\<close>

definition set_exception :: "dict \<Rightarrow> out_rec \<Rightarrow> out_rec" where
  "set_exception j r =
     (if get j ''exception_occurred'' \<noteq> PNone \<and> py_eq_True (get j ''exception_occurred'')
      then (let r1 = (if get j ''exception_type'' \<noteq> PNone
                      then r\<lparr> rec_job := (rec_job r)
                             (''exception_type'' \<mapsto> get j ''exception_type'') \<rparr>
                      else r)
            in if get j ''exception_note'' \<noteq> PNone
               then r1\<lparr> rec_job := (rec_job r1)
                      (''exception_note'' \<mapsto> get j ''exception_note'') \<rparr>
               else r1)
      else r)"

text \<open>Line 263.\<close>

definition set_scheduler :: "out_rec \<Rightarrow> out_rec" where
  "set_scheduler r = r\<lparr> rec_job := (rec_job r)(''scheduler'' \<mapsto> PStr ''flux'') \<rparr>"

text \<open>The body of the loop over the jobs (lines 155 to 265), for one job.\<close>

definition job_dict :: "env \<Rightarrow> queue_limits \<Rightarrow> dict \<Rightarrow> error + out_rec" where
  "job_dict E qtl j =
     bindE (set_outcome j (copy_fields j (new_rec E))) (\<lambda>r.
     bindE (set_queue_maxtimelimit qtl r) (\<lambda>r.
     bindE (set_identity E r) (\<lambda>r.
     bindE (set_submittime E j r) (\<lambda>r.
     bindE (set_start E j r) (\<lambda>r.
     bindE (set_end E j r) (\<lambda>r.
     bindE (set_timelimit E j r) (\<lambda>r.
     bindE (set_eligible E j r) (\<lambda>r.
     bindE (set_duration E j r) (\<lambda>r.
     bindE (set_proc_count E j r) (\<lambda>r.
       Inr (set_scheduler (set_exception j r))))))))))))"

text \<open>The loop: the records in the order of the jobs; the first exception ends it.\<close>

fun job_dicts :: "env \<Rightarrow> queue_limits \<Rightarrow> dict list \<Rightarrow> error + out_rec list" where
  "job_dicts E qtl [] = Inr []"
| "job_dicts E qtl (j # js) =
     bindE (job_dict E qtl j) (\<lambda>r.
     bindE (job_dicts E qtl js) (\<lambda>rs. Inr (r # rs)))"

section \<open>Sorting\<close>

text \<open>
  Lines 270 to 273: the key of a record is
  \<^verbatim>\<open>x.get("job", {}).get("submittime_epoch", "0.0")\<close>; the default is the string
  \<^verbatim>\<open>"0.0"\<close>.
\<close>

definition sort_key :: "out_rec \<Rightarrow> pyval" where
  "sort_key r = (case rec_job r ''submittime_epoch'' of Some v \<Rightarrow> v | None \<Rightarrow> PStr ''0.0'')"

text \<open>
  \<^verbatim>\<open>sorted\<close> is stable, compares keys with \<^verbatim>\<open><\<close> only, and raises what a
  comparison raises. It is modelled as the insertion sort that takes the elements from
  left to right and puts each one, the pivot, before the first element that the pivot
  is less than. Which pairs Python compares is not part of its interface; when every
  key is a number or a string, any sort of two or more keys has to compare a string
  with a number as soon as both occur, and the outcome does not depend on the algorithm.
\<close>

fun insert_sorted :: "env \<Rightarrow> out_rec \<Rightarrow> out_rec list \<Rightarrow> error + out_rec list" where
  "insert_sorted E x [] = Inr [x]"
| "insert_sorted E x (y # ys) =
     bindE (py_lt E (sort_key x) (sort_key y)) (\<lambda>b.
       if b then Inr (x # y # ys)
       else bindE (insert_sorted E x ys) (\<lambda>zs. Inr (y # zs)))"

fun sort_loop :: "env \<Rightarrow> out_rec list \<Rightarrow> out_rec list \<Rightarrow> error + out_rec list" where
  "sort_loop E acc [] = Inr acc"
| "sort_loop E acc (x # xs) = bindE (insert_sorted E x acc) (\<lambda>acc'. sort_loop E acc' xs)"

definition sorted_by_key :: "env \<Rightarrow> out_rec list \<Rightarrow> error + out_rec list" where
  "sorted_by_key E rs = sort_loop E [] rs"

definition create_job_dicts :: "env \<Rightarrow> queue_limits \<Rightarrow> dict list \<Rightarrow> error + out_rec list" where
  "create_job_dicts E qtl jobs = bindE (job_dicts E qtl jobs) (sorted_by_key E)"

section \<open>Fetching the jobs\<close>

text \<open>
  What a run meets outside the process: whether \<^verbatim>\<open>flux.Flux()\<close> connects (or the
  message of the exception it raises), what opening and reading
  \<^verbatim>\<open>FLUX_TIMESTAMP_FILE\<close> gives, and the answers of the three remote calls. A remote
  call can raise when it is made (the outer result) and when its answer is read (the
  inner one).
\<close>

definition FLUX_TIMESTAMP_FILE :: string where
  "FLUX_TIMESTAMP_FILE = ''/var/log/flux/last_completed''"

datatype file_read =
    FileNotFound
  | FileText string
  | ReadValueError
  | ReadException string

record world =
  flux_connect :: "string option"
  timestamp_file :: file_read
  rpc_config_get :: "error + (error + pyval)"
  job_list_inactive :: "pyval \<Rightarrow> error + (error + dict list)"
  job_kvs_lookup :: "pyval \<Rightarrow> error + pyval"

datatype request = ConfigGet | JobListInactive pyval | KvsLookup pyval

text \<open>
  The state of the process: the global \<^verbatim>\<open>queue_timelimits\<close>, the messages given to
  \<^verbatim>\<open>syslog\<close> (all at \<^verbatim>\<open>LOG_ERR\<close>), the lines on standard error, the records
  printed on standard output, and the requests sent to the job manager.
\<close>

record state =
  queue_timelimits :: queue_limits
  syslog_log :: "string list"
  stderr :: "string list"
  stdout :: "out_rec list"
  requests :: "request list"

definition initial_state :: state where
  "initial_state =
     \<lparr> queue_timelimits = Map.empty, syslog_log = [], stderr = [], stdout = [], requests = [] \<rparr>"

definition syslog :: "string \<Rightarrow> state \<Rightarrow> state" where
  "syslog msg s = s\<lparr> syslog_log := syslog_log s @ [msg] \<rparr>"

definition send :: "request \<Rightarrow> state \<Rightarrow> state" where
  "send rq s = s\<lparr> requests := requests s @ [rq] \<rparr>"

text \<open>\<^verbatim>\<open>str.strip()\<close>, for the ASCII whitespace characters.\<close>

definition is_space :: "char \<Rightarrow> bool" where
  "is_space c = ((of_char c :: nat) \<in> {9, 10, 11, 12, 13, 28, 29, 30, 31, 32})"

definition py_strip :: "string \<Rightarrow> string" where
  "py_strip s = rev (dropWhile is_space (rev (dropWhile is_space s)))"

text \<open>The truth value of a decoded JSON value.\<close>

fun truthy :: "pyval \<Rightarrow> bool" where
  "truthy PNone = False"
| "truthy (PBool b) = b"
| "truthy (PInt i) = (i \<noteq> 0)"
| "truthy (PFloat q) = (q \<noteq> 0)"
| "truthy (PStr s) = (s \<noteq> [])"
| "truthy (PList xs) = (xs \<noteq> [])"
| "truthy (PDict kvs) = (kvs \<noteq> [])"

text \<open>\<^verbatim>\<open>get_jobs\<close> (lines 49 to 55).\<close>

definition get_jobs :: "error + dict list \<Rightarrow> state \<Rightarrow> (error + dict list) \<times> state" where
  "get_jobs rpc_handle s =
     (case rpc_handle of
        Inr jobs \<Rightarrow> (Inr jobs, s)
      | Inl (EnvironmentError strerror) \<Rightarrow>
          (Inl (SystemExit 1), s\<lparr> stderr := stderr s @ [''rpc: '' @ strerror] \<rparr>)
      | Inl e \<Rightarrow> (Inl e, s))"

text \<open>
  Lines 77 to 94: the timestamp to fetch from. \<open>last_timestamp\<close> is \<open>PNone\<close> when
  the caller gave none.
\<close>

definition resolve_timestamp :: "env \<Rightarrow> world \<Rightarrow> pyval \<Rightarrow> state \<Rightarrow> (error + pyval) \<times> state" where
  "resolve_timestamp E W last_timestamp s =
     (if last_timestamp = PNone
      then (case timestamp_file W of
              FileText txt \<Rightarrow>
                (case float_of_str E (py_strip txt) of
                   Some q \<Rightarrow> (Inr (PFloat q), s)
                 | None \<Rightarrow>
                     (Inl (SystemExit 1),
                      syslog ''could not extract timestamp from Flux job log file'' s))
            | FileNotFound \<Rightarrow> (Inr (PFloat 0), s)
            | ReadValueError \<Rightarrow>
                (Inl (SystemExit 1),
                 syslog ''could not extract timestamp from Flux job log file'' s)
            | ReadException msg \<Rightarrow>
                (Inl (SystemExit 1), syslog (''an unexpected error occurred: '' @ msg) s))
      else (Inr last_timestamp, s))"

text \<open>
  Lines 103 to 108: one entry of \<^verbatim>\<open>queue_timelimits\<close> for each queue of the
  configuration.
\<close>

definition queue_duration :: "pyval \<Rightarrow> error + pyval" where
  "queue_duration details =
     bindE (py_get details ''policy'' (PDict [])) (\<lambda>policy.
     bindE (py_get policy ''limits'' (PDict [])) (\<lambda>limits.
       py_get limits ''duration'' (PStr ''UNKNOWN'')))"

fun set_queue_timelimits :: "(string \<times> pyval) list \<Rightarrow> state \<Rightarrow> (error + unit) \<times> state" where
  "set_queue_timelimits [] s = (Inr (), s)"
| "set_queue_timelimits ((queue, details) # rest) s =
     (case queue_duration details of
        Inl e \<Rightarrow> (Inl e, s)
      | Inr d \<Rightarrow>
          set_queue_timelimits rest (s\<lparr> queue_timelimits := (queue_timelimits s)(queue \<mapsto> d) \<rparr>))"

definition read_queue_info :: "pyval \<Rightarrow> state \<Rightarrow> (error + unit) \<times> state" where
  "read_queue_info qlist s =
     (case py_get qlist ''queues'' (PDict []) of
        Inl e \<Rightarrow> (Inl e, s)
      | Inr queue_info \<Rightarrow>
          (if truthy queue_info
           then (case queue_info of
                   PDict kvs \<Rightarrow> set_queue_timelimits kvs s
                 | _ \<Rightarrow> (Inl AttributeError, s))
           else (Inr (), s)))"

text \<open>Lines 97 to 101: only an \<^verbatim>\<open>EnvironmentError\<close> of \<^verbatim>\<open>future.get()\<close> is caught.\<close>

definition get_queue_info :: "world \<Rightarrow> state \<Rightarrow> (error + unit) \<times> state" where
  "get_queue_info W s =
     (let s1 = send ConfigGet s
      in case rpc_config_get W of
           Inl e \<Rightarrow> (Inl e, s1)
         | Inr (Inl e) \<Rightarrow> (if is_EnvironmentError e then (Inl (SystemExit 1), s1) else (Inl e, s1))
         | Inr (Inr qlist) \<Rightarrow> read_queue_info qlist s1)"

text \<open>
  Lines 120 to 131, the body of the \<^verbatim>\<open>try\<close>: the job as far as it was updated, and the
  exception if one was raised.
\<close>

definition system_attributes :: "pyval \<Rightarrow> error + pyval" where
  "system_attributes jobspec =
     bindE (py_get jobspec ''attributes'' (PDict [])) (\<lambda>attributes.
       py_get attributes ''system'' (PDict []))"

definition add_jobspec :: "pyval \<Rightarrow> dict \<Rightarrow> (error + unit) \<times> dict" where
  "add_jobspec jobspec j =
     (let j1 = j(''jobspec'' \<mapsto> jobspec)
      in case bindE (system_attributes jobspec) (\<lambda>sys. py_get sys ''duration'' (PDict [])) of
           Inl e \<Rightarrow> (Inl e, j1)
         | Inr d \<Rightarrow>
             (let j2 = j1(''duration'' \<mapsto> d)
              in case system_attributes jobspec of
                   Inl e \<Rightarrow> (Inl e, j2)
                 | Inr accounting_attributes \<Rightarrow>
                     (case py_get accounting_attributes ''bank'' PNone of
                        Inl e \<Rightarrow> (Inl e, j2)
                      | Inr bank \<Rightarrow>
                          (case py_get accounting_attributes ''queue'' PNone of
                             Inl e \<Rightarrow> (Inl e, j2(''bank'' \<mapsto> bank))
                           | Inr queue \<Rightarrow>
                               (case py_get accounting_attributes ''project'' PNone of
                                  Inl e \<Rightarrow> (Inl e, j2(''bank'' \<mapsto> bank, ''queue'' \<mapsto> queue))
                                | Inr project \<Rightarrow>
                                    (Inr (), j2(''bank'' \<mapsto> bank, ''queue'' \<mapsto> queue,
                                               ''project'' \<mapsto> project)))))))"

text \<open>Lines 137 and 138.\<close>

definition add_eventlog :: "pyval \<Rightarrow> dict \<Rightarrow> error + dict" where
  "add_eventlog job_data j =
     (if job_data \<noteq> PNone
      then bindE (py_get job_data ''eventlog'' PNone)
             (\<lambda>ev. Inr (if ev \<noteq> PNone then j(''eventlog'' \<mapsto> ev) else j))
      else Inr j)"

text \<open>
  Lines 119 to 138 for one job: a \<^verbatim>\<open>JSONDecodeError\<close> in the \<^verbatim>\<open>try\<close> goes to the next
  job (\<^verbatim>\<open>continue\<close>), any other exception is not caught.
\<close>

definition enrich_job :: "pyval \<Rightarrow> dict \<Rightarrow> error + dict" where
  "enrich_job job_data j =
     (if job_data \<noteq> PNone
      then bindE (py_get job_data ''jobspec'' PNone) (\<lambda>jobspec.
             if jobspec \<noteq> PNone
             then (case add_jobspec jobspec j of
                     (Inr u, j') \<Rightarrow> add_eventlog job_data j'
                   | (Inl JSONDecodeError, j') \<Rightarrow> Inr j'
                   | (Inl e, j') \<Rightarrow> Inl e)
             else add_eventlog job_data j)
      else add_eventlog job_data j)"

text \<open>Lines 114 to 138: \<^verbatim>\<open>job["id"]\<close> raises \<^verbatim>\<open>KeyError\<close> on a job without an id.\<close>

fun enrich_jobs :: "world \<Rightarrow> dict list \<Rightarrow> state \<Rightarrow> (error + dict list) \<times> state" where
  "enrich_jobs W [] s = (Inr [], s)"
| "enrich_jobs W (j # js) s =
     (case j ''id'' of
        None \<Rightarrow> (Inl KeyError, s)
      | Some jid \<Rightarrow>
          (let s1 = send (KvsLookup jid) s
           in case job_kvs_lookup W jid of
                Inl e \<Rightarrow> (Inl e, s1)
              | Inr job_data \<Rightarrow>
                  (case enrich_job job_data j of
                     Inl e \<Rightarrow> (Inl e, s1)
                   | Inr j' \<Rightarrow>
                       (case enrich_jobs W js s1 of
                          (Inl e, s2) \<Rightarrow> (Inl e, s2)
                        | (Inr js', s2) \<Rightarrow> (Inr (j' # js'), s2)))))"

text \<open>Lines 110 to 112.\<close>

definition list_jobs :: "world \<Rightarrow> pyval \<Rightarrow> state \<Rightarrow> (error + dict list) \<times> state" where
  "list_jobs W last_timestamp s =
     (let s1 = send (JobListInactive last_timestamp) s
      in case job_list_inactive W last_timestamp of
           Inl e \<Rightarrow> (Inl e, s1)
         | Inr rpc_handle \<Rightarrow> get_jobs rpc_handle s1)"

text \<open>\<^verbatim>\<open>fetch_new_jobs\<close> (lines 58 to 140).\<close>

definition fetch_new_jobs :: "env \<Rightarrow> world \<Rightarrow> pyval \<Rightarrow> state \<Rightarrow> (error + dict list) \<times> state" where
  "fetch_new_jobs E W last_timestamp s =
     (case flux_connect W of
        Some msg \<Rightarrow>
          (Inl (SystemExit 0),
           syslog (''exception message: '' @ msg)
             (syslog ''Could not connect to Flux instance; Flux may be down'' s))
      | None \<Rightarrow>
          (case resolve_timestamp E W last_timestamp s of
             (Inl e, s1) \<Rightarrow> (Inl e, s1)
           | (Inr ts, s1) \<Rightarrow>
               (case get_queue_info W s1 of
                  (Inl e, s2) \<Rightarrow> (Inl e, s2)
                | (Inr u, s2) \<Rightarrow>
                    (case list_jobs W ts s2 of
                       (Inl e, s3) \<Rightarrow> (Inl e, s3)
                     | (Inr jobs, s3) \<Rightarrow> enrich_jobs W jobs s3))))"

section \<open>The run\<close>

text \<open>
  \<^verbatim>\<open>main\<close> (lines 283 to 312): \<open>since\<close> is the value of \<^verbatim>\<open>--since\<close>, an int, or
  \<open>None\<close> without the option. The records are printed only after
  \<^verbatim>\<open>create_job_dicts\<close> has returned; writing the output file and the timestamp file
  is commented out in the source.
\<close>

definition optional_int :: "int option \<Rightarrow> pyval" where
  "optional_int a = (case a of None \<Rightarrow> PNone | Some n \<Rightarrow> PInt n)"

definition main :: "env \<Rightarrow> world \<Rightarrow> int option \<Rightarrow> state \<Rightarrow> (error + unit) \<times> state" where
  "main E W since s =
     (case fetch_new_jobs E W (optional_int since) s of
        (Inl e, s1) \<Rightarrow> (Inl e, s1)
      | (Inr jobs, s1) \<Rightarrow>
          (case create_job_dicts E (queue_timelimits s1) jobs of
             Inl e \<Rightarrow> (Inl e, s1)
           | Inr job_records \<Rightarrow> (Inr (), s1\<lparr> stdout := stdout s1 @ job_records \<rparr>)))"

text \<open>
  The exit status of the process: that of \<^verbatim>\<open>sys.exit\<close>, 1 after an exception that
  nothing caught, 0 otherwise.
\<close>

fun exit_status :: "error + unit \<Rightarrow> nat" where
  "exit_status (Inr u) = 0"
| "exit_status (Inl (SystemExit n)) = n"
| "exit_status (Inl e) = 1"

definition run :: "env \<Rightarrow> world \<Rightarrow> int option \<Rightarrow> nat \<times> state" where
  "run E W since = (case main E W since initial_state of (r, s) \<Rightarrow> (exit_status r, s))"

section \<open>An environment for the examples\<close>

text \<open>
  The examples below are evaluated in one concrete environment. Its arithmetic is exact
  (\<open>rnd\<close> is the identity), which is what double arithmetic gives on the values of the
  examples: small integers and halves. Its password database has the users 0 and 1000
  and its group database the groups 0 and 100; a uid or gid that is not an int raises
  \<^verbatim>\<open>TypeError\<close>, an unknown one \<^verbatim>\<open>KeyError\<close>, as the modules \<^verbatim>\<open>pwd\<close> and
  \<^verbatim>\<open>grp\<close> do. No example takes \<^verbatim>\<open>str\<close> of a float or a container or compares two
  lists, and \<^verbatim>\<open>float\<close> reads plain decimal literals only.
\<close>

text \<open>
  \<^verbatim>\<open>datetime.fromtimestamp(t, tz=utc).isoformat()\<close>: the days since 1970-01-01 as a
  date of the proleptic Gregorian calendar, the second of the day, and the
  microseconds of a float (rounded half to even) when they are not zero.
\<close>

definition civil_from_days :: "int \<Rightarrow> int \<times> int \<times> int" where
  "civil_from_days z0 =
     (let z = z0 + 719468;
          era = z div 146097;
          doe = z mod 146097;
          yoe = (doe - doe div 1460 + doe div 36524 - doe div 146096) div 365;
          doy = doe - (365 * yoe + yoe div 4 - yoe div 100);
          mp = (5 * doy + 2) div 153;
          d = doy - (153 * mp + 2) div 5 + 1;
          m = (if mp < 10 then mp + 3 else mp - 9);
          y = yoe + era * 400 + (if m \<le> 2 then 1 else 0)
      in (y, m, d))"

definition pad :: "nat \<Rightarrow> int \<Rightarrow> string" where
  "pad w n = replicate (w - length (str_nat (nat n))) (CHR ''0'') @ str_nat (nat n)"

definition split_microseconds :: "(rat \<Rightarrow> rat) \<Rightarrow> rat \<Rightarrow> int \<times> int" where
  "split_microseconds rd q =
     (let ip = (if 0 \<le> q then \<lfloor>q\<rfloor> else \<lceil>q\<rceil>);
          us = half_even (rd ((q - of_int ip) * 1000000))
      in if 1000000 \<le> us then (ip + 1, us - 1000000)
         else if us < 0 then (ip - 1, us + 1000000)
         else (ip, us))"

definition utc_isoformat :: "(rat \<Rightarrow> rat) \<Rightarrow> pyval \<Rightarrow> error + string" where
  "utc_isoformat rd t =
     (case as_number t of
        None \<Rightarrow> Inl TypeError
      | Some x \<Rightarrow>
          (case (case x of NInt i \<Rightarrow> (i, 0) | NFloat q \<Rightarrow> split_microseconds rd q) of
             (secs, us) \<Rightarrow>
               (case civil_from_days (secs div 86400) of
                  (y, m, d) \<Rightarrow>
                    (let sod = secs mod 86400
                     in if y < 1 \<or> 9999 < y then Inl ValueError
                        else Inr (pad 4 y @ ''-'' @ pad 2 m @ ''-'' @ pad 2 d @ ''T''
                                  @ pad 2 (sod div 3600) @ '':''
                                  @ pad 2 (sod mod 3600 div 60) @ '':''
                                  @ pad 2 (sod mod 60)
                                  @ (if us = 0 then [] else ''.'' @ pad 6 us)
                                  @ ''+00:00'')))))"

fun digits_value :: "string \<Rightarrow> nat \<Rightarrow> nat option" where
  "digits_value [] acc = Some acc"
| "digits_value (c # cs) acc =
     (if 48 \<le> (of_char c :: nat) \<and> (of_char c :: nat) \<le> 57
      then digits_value cs (10 * acc + (of_char c - 48))
      else None)"

definition decimal_literal :: "string \<Rightarrow> rat option" where
  "decimal_literal s =
     (let sgn = (case s of c # cs \<Rightarrow> (if c = CHR ''-'' then - 1 else 1) | [] \<Rightarrow> (1::rat));
          body = (case s of c # cs \<Rightarrow> (if c = CHR ''-'' \<or> c = CHR ''+'' then cs else s) | [] \<Rightarrow> s);
          ip = takeWhile (\<lambda>c. c \<noteq> CHR ''.'') body;
          fp = drop 1 (dropWhile (\<lambda>c. c \<noteq> CHR ''.'') body)
      in if ip = [] \<and> fp = [] then None
         else (case (digits_value ip 0, digits_value fp 0) of
                 (Some a, Some b) \<Rightarrow> Some (sgn * (of_nat a + of_nat b / 10 ^ length fp))
               | _ \<Rightarrow> None))"

definition example_getpwuid :: "pyval \<Rightarrow> error + passwd" where
  "example_getpwuid uid =
     (case as_index uid of
        None \<Rightarrow> Inl TypeError
      | Some n \<Rightarrow>
          (if n = 0 then Inr \<lparr> pw_name = ''root'', pw_gid = 0 \<rparr>
           else if n = 1000 then Inr \<lparr> pw_name = ''alice'', pw_gid = 100 \<rparr>
           else Inl KeyError))"

definition example_getgrgid :: "pyval \<Rightarrow> error + string" where
  "example_getgrgid gid =
     (case as_index gid of
        None \<Rightarrow> Inl TypeError
      | Some n \<Rightarrow>
          (if n = 0 then Inr ''root''
           else if n = 100 then Inr ''users''
           else Inl KeyError))"

definition example_env :: env where
  "example_env =
     \<lparr> rnd = (\<lambda>q. q),
       getpwuid = example_getpwuid,
       getgrgid = example_getgrgid,
       fromtimestamp_iso = utc_isoformat (\<lambda>q. q),
       str_other = (\<lambda>v. ''?''),
       float_of_str = decimal_literal,
       list_lt = (\<lambda>xs ys. None) \<rparr>"

section \<open>Reading results\<close>

text \<open>The exception of a result, and one field of every record of a result.\<close>

fun raised :: "error + 'a \<Rightarrow> error option" where
  "raised (Inl e) = Some e"
| "raised (Inr x) = None"

definition field_values :: "(out_rec \<Rightarrow> dict) \<Rightarrow> string \<Rightarrow> out_rec list \<Rightarrow> pyval option list" where
  "field_values part k rs = map (\<lambda>r. part r k) rs"

definition fields ::
  "(out_rec \<Rightarrow> dict) \<Rightarrow> string \<Rightarrow> error + out_rec list \<Rightarrow> error + pyval option list" where
  "fields part k res = map_sum id (field_values part k) res"

section \<open>Example jobs and runs\<close>


definition submitted_at :: "int \<Rightarrow> dict" where
  "submitted_at t = [''t_submit'' \<mapsto> PInt t]"

definition empty_job :: dict where
  "empty_job = Map.empty"



definition cancelled_job :: dict where
  "cancelled_job = [''id'' \<mapsto> PInt 7, ''result'' \<mapsto> PInt 4]"

definition unknown_result_job :: dict where
  "unknown_result_job = [''id'' \<mapsto> PInt 8, ''result'' \<mapsto> PInt 3]"

definition unknown_user_job :: dict where
  "unknown_user_job = [''userid'' \<mapsto> PInt 4242]"

definition named_job :: dict where
  "named_job = [''id'' \<mapsto> PInt 7, ''name'' \<mapsto> PStr ''sleep'']"

text \<open>
  A job manager with one queue, \<^verbatim>\<open>batch\<close>, limited to 3600 seconds, that lists the
  given jobs and answers every lookup of a job with the given data; the timestamp file
  is as given.
\<close>

definition example_config :: pyval where
  "example_config =
     PDict [(''queues'',
       PDict [(''batch'',
         PDict [(''policy'', PDict [(''limits'', PDict [(''duration'', PInt 3600)])])])])]"

definition example_job_data :: pyval where
  "example_job_data =
     PDict [(''jobspec'',
       PDict [(''attributes'',
         PDict [(''system'',
           PDict [(''duration'', PInt 60), (''bank'', PStr ''physics''),
                  (''queue'', PStr ''batch'')])])])]"

definition example_world :: "file_read \<Rightarrow> dict list \<Rightarrow> pyval \<Rightarrow> world" where
  "example_world file jobs job_data =
     \<lparr> flux_connect = None,
       timestamp_file = file,
       rpc_config_get = Inr (Inr example_config),
       job_list_inactive = (\<lambda>since. Inr (Inr jobs)),
       job_kvs_lookup = (\<lambda>jid. Inr job_data) \<rparr>"

definition flux_down_world :: "file_read \<Rightarrow> world" where
  "flux_down_world file =
     (example_world file [] PNone)\<lparr> flux_connect := Some ''Connection refused'' \<rparr>"

section \<open>Sequencing\<close>

lemma bindE_Inl [simp]: "bindE (Inl e) f = Inl e"
  by (simp add: bindE_def)

lemma bindE_Inr [simp]: "bindE (Inr x) f = f x"
  by (simp add: bindE_def)

lemma bindE_eq_Inr: "bindE m f = Inr y \<longleftrightarrow> (\<exists>x. m = Inr x \<and> f x = Inr y)"
  by (cases m) simp_all

lemma bindE_eq_Inl: "bindE m f = Inl e \<longleftrightarrow> m = Inl e \<or> (\<exists>x. m = Inr x \<and> f x = Inl e)"
  by (cases m) simp_all

section \<open>The steps of the mapping\<close>

text \<open>A record that \<open>job_dict\<close> returns went through every step.\<close>

lemma job_dict_steps:
  assumes "job_dict E qtl j = Inr r"
  obtains r1 r2 r3 r4 r5 r6 r7 r8 r9 r10 where
    "set_outcome j (copy_fields j (new_rec E)) = Inr r1"
    "set_queue_maxtimelimit qtl r1 = Inr r2"
    "set_identity E r2 = Inr r3"
    "set_submittime E j r3 = Inr r4"
    "set_start E j r4 = Inr r5"
    "set_end E j r5 = Inr r6"
    "set_timelimit E j r6 = Inr r7"
    "set_eligible E j r7 = Inr r8"
    "set_duration E j r8 = Inr r9"
    "set_proc_count E j r9 = Inr r10"
    "r = set_scheduler (set_exception j r10)"
  using assms unfolding job_dict_def bindE_eq_Inr by blast

text \<open>What each step leaves as it was.\<close>

lemma set_outcome_frame:
  assumes "set_outcome j r = Inr r'"
  shows "rec_job r' = rec_job r" and "rec_node r' = rec_node r" and "rec_task r' = rec_task r"
    and "rec_proc r' = rec_proc r" and "rec_user r' = rec_user r" and "rec_group r' = rec_group r"
    and "rec_schema r' = rec_schema r"
    and "k \<noteq> ''outcome'' \<Longrightarrow> rec_event r' k = rec_event r k"
  using assms by (auto simp: set_outcome_def bindE_eq_Inr split: if_splits)

lemma set_queue_maxtimelimit_frame:
  assumes "set_queue_maxtimelimit qtl r = Inr r'"
  shows "rec_event r' = rec_event r" and "rec_node r' = rec_node r" and "rec_task r' = rec_task r"
    and "rec_proc r' = rec_proc r" and "rec_user r' = rec_user r" and "rec_group r' = rec_group r"
    and "rec_schema r' = rec_schema r"
    and "k \<noteq> ''queue_maxtimelimit'' \<Longrightarrow> rec_job r' k = rec_job r k"
  using assms by (auto simp: set_queue_maxtimelimit_def Let_def split: if_splits)

lemma set_identity_frame:
  assumes "set_identity E r = Inr r'"
  shows "rec_event r' = rec_event r" and "rec_job r' = rec_job r" and "rec_node r' = rec_node r"
    and "rec_task r' = rec_task r" and "rec_proc r' = rec_proc r" and "rec_schema r' = rec_schema r"
    and "k \<noteq> ''name'' \<Longrightarrow> rec_user r' k = rec_user r k"
    and "k \<noteq> ''id'' \<Longrightarrow> k \<noteq> ''name'' \<Longrightarrow> rec_group r' k = rec_group r k"
  using assms by (auto simp: set_identity_def Let_def bindE_eq_Inr split: if_splits)

lemma set_submittime_frame:
  assumes "set_submittime E j r = Inr r'"
  shows "rec_event r' = rec_event r" and "rec_node r' = rec_node r" and "rec_task r' = rec_task r"
    and "rec_proc r' = rec_proc r" and "rec_user r' = rec_user r" and "rec_group r' = rec_group r"
    and "rec_schema r' = rec_schema r"
    and "k \<noteq> ''submittime_epoch'' \<Longrightarrow> k \<noteq> ''submittime'' \<Longrightarrow> rec_job r' k = rec_job r k"
  using assms by (auto simp: set_submittime_def bindE_eq_Inr split: if_splits)

lemma set_start_frame:
  assumes "set_start E j r = Inr r'"
  shows "rec_job r' = rec_job r" and "rec_node r' = rec_node r" and "rec_task r' = rec_task r"
    and "rec_proc r' = rec_proc r" and "rec_user r' = rec_user r" and "rec_group r' = rec_group r"
    and "rec_schema r' = rec_schema r"
    and "k \<noteq> ''start'' \<Longrightarrow> rec_event r' k = rec_event r k"
  using assms by (auto simp: set_start_def bindE_eq_Inr split: if_splits)

lemma set_end_frame:
  assumes "set_end E j r = Inr r'"
  shows "rec_job r' = rec_job r" and "rec_node r' = rec_node r" and "rec_task r' = rec_task r"
    and "rec_proc r' = rec_proc r" and "rec_user r' = rec_user r" and "rec_group r' = rec_group r"
    and "rec_schema r' = rec_schema r"
    and "k \<noteq> ''end'' \<Longrightarrow> rec_event r' k = rec_event r k"
  using assms by (auto simp: set_end_def bindE_eq_Inr split: if_splits)

lemma set_timelimit_frame:
  assumes "set_timelimit E j r = Inr r'"
  shows "rec_event r' = rec_event r" and "rec_node r' = rec_node r" and "rec_task r' = rec_task r"
    and "rec_proc r' = rec_proc r" and "rec_user r' = rec_user r" and "rec_group r' = rec_group r"
    and "rec_schema r' = rec_schema r"
    and "k \<noteq> ''timelimit'' \<Longrightarrow> rec_job r' k = rec_job r k"
  using assms by (auto simp: set_timelimit_def bindE_eq_Inr split: if_splits)

lemma set_eligible_frame:
  assumes "set_eligible E j r = Inr r'"
  shows "rec_event r' = rec_event r" and "rec_node r' = rec_node r" and "rec_task r' = rec_task r"
    and "rec_proc r' = rec_proc r" and "rec_user r' = rec_user r" and "rec_group r' = rec_group r"
    and "rec_schema r' = rec_schema r"
    and "k \<noteq> ''eligibletime'' \<Longrightarrow> k \<noteq> ''queue_time'' \<Longrightarrow> rec_job r' k = rec_job r k"
  using assms by (auto simp: set_eligible_def bindE_eq_Inr split: if_splits)

lemma set_duration_frame:
  assumes "set_duration E j r = Inr r'"
  shows "rec_job r' = rec_job r" and "rec_node r' = rec_node r" and "rec_task r' = rec_task r"
    and "rec_proc r' = rec_proc r" and "rec_user r' = rec_user r" and "rec_group r' = rec_group r"
    and "rec_schema r' = rec_schema r"
    and "k \<noteq> ''duration_seconds'' \<Longrightarrow> k \<noteq> ''duration'' \<Longrightarrow> rec_event r' k = rec_event r k"
  using assms by (auto simp: set_duration_def bindE_eq_Inr split: if_splits)

lemma set_proc_count_frame:
  assumes "set_proc_count E j r = Inr r'"
  shows "rec_event r' = rec_event r" and "rec_job r' = rec_job r" and "rec_node r' = rec_node r"
    and "rec_task r' = rec_task r" and "rec_user r' = rec_user r" and "rec_group r' = rec_group r"
    and "rec_schema r' = rec_schema r"
    and "k \<noteq> ''count'' \<Longrightarrow> rec_proc r' k = rec_proc r k"
  using assms by (auto simp: set_proc_count_def bindE_eq_Inr split: if_splits)

lemma set_exception_frame:
  shows "rec_event (set_exception j r) = rec_event r" and "rec_node (set_exception j r) = rec_node r"
    and "rec_task (set_exception j r) = rec_task r" and "rec_proc (set_exception j r) = rec_proc r"
    and "rec_user (set_exception j r) = rec_user r" and "rec_group (set_exception j r) = rec_group r"
    and "rec_schema (set_exception j r) = rec_schema r"
    and "k \<noteq> ''exception_type'' \<Longrightarrow> k \<noteq> ''exception_note'' \<Longrightarrow>
           rec_job (set_exception j r) k = rec_job r k"
  by (simp_all add: set_exception_def Let_def)

lemma set_scheduler_frame:
  shows "rec_event (set_scheduler r) = rec_event r" and "rec_node (set_scheduler r) = rec_node r"
    and "rec_task (set_scheduler r) = rec_task r" and "rec_proc (set_scheduler r) = rec_proc r"
    and "rec_user (set_scheduler r) = rec_user r" and "rec_group (set_scheduler r) = rec_group r"
    and "rec_schema (set_scheduler r) = rec_schema r"
    and "k \<noteq> ''scheduler'' \<Longrightarrow> rec_job (set_scheduler r) k = rec_job r k"
  by (simp_all add: set_scheduler_def)

text \<open>The same for the whole mapping of a job, from the record after the copies.\<close>

lemma job_dict_rec_event:
  assumes "job_dict E qtl j = Inr r"
    and "k \<notin> {''outcome'', ''start'', ''end'', ''duration_seconds'', ''duration''}"
  shows "rec_event r k = rec_event (new_rec E) k"
proof -
  from assms(1) obtain r1 r2 r3 r4 r5 r6 r7 r8 r9 r10 where
    s1: "set_outcome j (copy_fields j (new_rec E)) = Inr r1" and
    s2: "set_queue_maxtimelimit qtl r1 = Inr r2" and
    s3: "set_identity E r2 = Inr r3" and
    s4: "set_submittime E j r3 = Inr r4" and
    s5: "set_start E j r4 = Inr r5" and
    s6: "set_end E j r5 = Inr r6" and
    s7: "set_timelimit E j r6 = Inr r7" and
    s8: "set_eligible E j r7 = Inr r8" and
    s9: "set_duration E j r8 = Inr r9" and
    s10: "set_proc_count E j r9 = Inr r10" and
    fin: "r = set_scheduler (set_exception j r10)"
    by (rule job_dict_steps)
  from assms(2) show ?thesis
    by (simp add: fin set_scheduler_frame set_exception_frame set_proc_count_frame [OF s10]
        set_duration_frame [OF s9] set_eligible_frame [OF s8] set_timelimit_frame [OF s7]
        set_end_frame [OF s6] set_start_frame [OF s5] set_submittime_frame [OF s4]
        set_identity_frame [OF s3] set_queue_maxtimelimit_frame [OF s2]
        set_outcome_frame [OF s1] copy_fields_def)
qed

lemma job_dict_rec_job:
  assumes "job_dict E qtl j = Inr r"
    and "k \<notin> {''queue_maxtimelimit'', ''submittime_epoch'', ''submittime'', ''timelimit'',
               ''eligibletime'', ''queue_time'', ''exception_type'', ''exception_note'',
               ''scheduler''}"
  shows "rec_job r k = rec_job (copy_fields j (new_rec E)) k"
proof -
  from assms(1) obtain r1 r2 r3 r4 r5 r6 r7 r8 r9 r10 where
    s1: "set_outcome j (copy_fields j (new_rec E)) = Inr r1" and
    s2: "set_queue_maxtimelimit qtl r1 = Inr r2" and
    s3: "set_identity E r2 = Inr r3" and
    s4: "set_submittime E j r3 = Inr r4" and
    s5: "set_start E j r4 = Inr r5" and
    s6: "set_end E j r5 = Inr r6" and
    s7: "set_timelimit E j r6 = Inr r7" and
    s8: "set_eligible E j r7 = Inr r8" and
    s9: "set_duration E j r8 = Inr r9" and
    s10: "set_proc_count E j r9 = Inr r10" and
    fin: "r = set_scheduler (set_exception j r10)"
    by (rule job_dict_steps)
  from assms(2) show ?thesis
    by (simp add: fin set_scheduler_frame set_exception_frame set_proc_count_frame [OF s10]
        set_duration_frame [OF s9] set_eligible_frame [OF s8] set_timelimit_frame [OF s7]
        set_end_frame [OF s6] set_start_frame [OF s5] set_submittime_frame [OF s4]
        set_identity_frame [OF s3] set_queue_maxtimelimit_frame [OF s2]
        set_outcome_frame [OF s1])
qed

lemma job_dict_rec_other:
  assumes "job_dict E qtl j = Inr r"
  shows "rec_node r = rec_node (copy_fields j (new_rec E))"
    and "rec_task r = rec_task (copy_fields j (new_rec E))"
    and "rec_schema r = rec_schema (new_rec E)"
    and "k \<noteq> ''name'' \<Longrightarrow> rec_user r k = rec_user (copy_fields j (new_rec E)) k"
    and "k \<noteq> ''count'' \<Longrightarrow> rec_proc r k = None"
proof -
  from assms(1) obtain r1 r2 r3 r4 r5 r6 r7 r8 r9 r10 where
    s1: "set_outcome j (copy_fields j (new_rec E)) = Inr r1" and
    s2: "set_queue_maxtimelimit qtl r1 = Inr r2" and
    s3: "set_identity E r2 = Inr r3" and
    s4: "set_submittime E j r3 = Inr r4" and
    s5: "set_start E j r4 = Inr r5" and
    s6: "set_end E j r5 = Inr r6" and
    s7: "set_timelimit E j r6 = Inr r7" and
    s8: "set_eligible E j r7 = Inr r8" and
    s9: "set_duration E j r8 = Inr r9" and
    s10: "set_proc_count E j r9 = Inr r10" and
    fin: "r = set_scheduler (set_exception j r10)"
    by (rule job_dict_steps)
  note frames = fin set_scheduler_frame set_exception_frame set_proc_count_frame [OF s10]
    set_duration_frame [OF s9] set_eligible_frame [OF s8] set_timelimit_frame [OF s7]
    set_end_frame [OF s6] set_start_frame [OF s5] set_submittime_frame [OF s4]
    set_identity_frame [OF s3] set_queue_maxtimelimit_frame [OF s2]
    set_outcome_frame [OF s1]
  show "rec_node r = rec_node (copy_fields j (new_rec E))"
    by (simp add: frames)
  show "rec_task r = rec_task (copy_fields j (new_rec E))"
    by (simp add: frames)
  show "rec_schema r = rec_schema (new_rec E)"
    by (simp add: frames copy_fields_def)
  show "rec_user r k = rec_user (copy_fields j (new_rec E)) k" if "k \<noteq> ''name''"
    using that by (simp add: frames)
  show "rec_proc r k = None" if "k \<noteq> ''count''"
    using that by (simp add: frames copy_fields_def new_rec_def)
qed

section \<open>From the jobs to the sorted records\<close>

lemma insert_sorted_set: "insert_sorted E x ys = Inr zs \<Longrightarrow> set zs = insert x (set ys)"
proof (induction ys arbitrary: zs)
  case Nil
  then show ?case by auto
next
  case (Cons y ys)
  then show ?case
    by (auto simp: bindE_eq_Inr split: if_splits)
qed

lemma sort_loop_set: "sort_loop E acc xs = Inr zs \<Longrightarrow> set zs = set acc \<union> set xs"
proof (induction xs arbitrary: acc zs)
  case Nil
  then show ?case by simp
next
  case (Cons x xs)
  from Cons.prems obtain acc' where a: "insert_sorted E x acc = Inr acc'"
    and l: "sort_loop E acc' xs = Inr zs"
    by (auto simp: bindE_eq_Inr)
  from Cons.IH [OF l] insert_sorted_set [OF a] show ?case by auto
qed

lemma job_dicts_member:
  "job_dicts E qtl jobs = Inr rs \<Longrightarrow> j \<in> set jobs \<Longrightarrow> \<exists>r\<in>set rs. job_dict E qtl j = Inr r"
proof (induction jobs arbitrary: rs)
  case Nil
  then show ?case by simp
next
  case (Cons a jobs)
  then show ?case
    by (auto simp: bindE_eq_Inr)
qed

lemma create_job_dicts_record:
  assumes "create_job_dicts E qtl jobs = Inr out" and "j \<in> set jobs"
  shows "\<exists>r\<in>set out. job_dict E qtl j = Inr r"
proof -
  from assms(1) obtain rs where rs: "job_dicts E qtl jobs = Inr rs"
    and out: "sort_loop E [] rs = Inr out"
    by (auto simp: create_job_dicts_def sorted_by_key_def bindE_eq_Inr)
  from sort_loop_set [OF out] have "set out = set rs" by simp
  with job_dicts_member [OF rs assms(2)] show ?thesis by simp
qed

section \<open>Evaluation in the example environment\<close>

lemma str_nat_small: "n < 10 \<Longrightarrow> str_nat n = [''0123456789'' ! n]"
  by (subst str_nat.simps) simp

lemma str_nat_large:
  "10 \<le> n \<Longrightarrow> str_nat n = str_nat (n div 10) @ [''0123456789'' ! (n mod 10)]"
  by (subst str_nat.simps) simp

lemma civil_day0: "civil_from_days 0 = (1970, 1, 1)"
  by code_simp




lemmas iso_eval = utc_isoformat_def civil_day0 pad_def str_nat_small str_nat_large




lemma iso_int_10: "utc_isoformat (\<lambda>q. q) (PInt 10) = Inr ''1970-01-01T00:00:10+00:00''"
  by (simp add: iso_eval)

lemma iso_int_20: "utc_isoformat (\<lambda>q. q) (PInt 20) = Inr ''1970-01-01T00:00:20+00:00''"
  by (simp add: iso_eval)

lemma iso_int_30: "utc_isoformat (\<lambda>q. q) (PInt 30) = Inr ''1970-01-01T00:00:30+00:00''"
  by (simp add: iso_eval)



lemmas step_defs = new_rec_def copy_fields_def set_outcome_def set_queue_maxtimelimit_def
  set_identity_def set_submittime_def set_start_def set_end_def set_timelimit_def
  set_eligible_def set_duration_def set_proc_count_def set_exception_def set_scheduler_def
  Let_def

lemmas op_defs = get_def py_sub_def py_mul_def py_round1_def py_eq_True_def py_lt_def
  int_key_def outcome_of_def OUTCOME_CONVERSION_def get_username_def get_gid_def
  get_groupname_def caught_lookup_def

lemmas example_defs = example_env_def example_getpwuid_def example_getgrgid_def

lemmas batch_defs = create_job_dicts_def sorted_by_key_def sort_key_def job_dict_def

lemma result_cases: "\<not> isl res \<Longrightarrow> \<exists>out. res = Inr out"
  by (cases res) simp_all

section \<open>What fetching does to the state of the process\<close>

lemma resolve_timestamp_state:
  assumes "resolve_timestamp E W lt s = (res, s')"
  shows "stdout s' = stdout s" and "requests s' = requests s"
    and "queue_timelimits s' = queue_timelimits s"
  using assms
  by (auto simp: resolve_timestamp_def syslog_def split: if_splits file_read.splits option.splits)

lemma set_queue_timelimits_state:
  assumes "set_queue_timelimits kvs s = (res, s')"
  shows "stdout s' = stdout s \<and> requests s' = requests s \<and> syslog_log s' = syslog_log s"
  using assms
proof (induction kvs arbitrary: s)
  case Nil
  then show ?case by simp
next
  case (Cons kv kvs)
  obtain queue details where kv: "kv = (queue, details)" by (cases kv)
  show ?case
  proof (cases "queue_duration details")
    case (Inl e)
    with Cons.prems kv show ?thesis by simp
  next
    case (Inr d)
    with Cons.prems kv
    have "set_queue_timelimits kvs (s\<lparr>queue_timelimits := (queue_timelimits s)(queue \<mapsto> d)\<rparr>) = (res, s')"
      by simp
    from Cons.IH [OF this] show ?thesis by simp
  qed
qed

lemma get_queue_info_state:
  assumes "get_queue_info W s = (res, s')"
  shows "stdout s' = stdout s" and "requests s' = requests s @ [ConfigGet]"
    and "syslog_log s' = syslog_log s"
proof -
  have "stdout s' = stdout s \<and> requests s' = requests s @ [ConfigGet] \<and>
      syslog_log s' = syslog_log s"
  proof (cases "rpc_config_get W")
    case (Inl e)
    with assms show ?thesis
      by (auto simp: get_queue_info_def send_def Let_def)
  next
    case (Inr fut)
    show ?thesis
    proof (cases fut)
      case (Inl e)
      with Inr assms show ?thesis
        by (auto simp: get_queue_info_def send_def Let_def split: if_splits)
    next
      case inner: (Inr qlist)
      with Inr assms have rq: "read_queue_info qlist (send ConfigGet s) = (res, s')"
        by (simp add: get_queue_info_def Let_def)
      show ?thesis
      proof (cases "py_get qlist ''queues'' (PDict [])")
        case (Inl e)
        with rq show ?thesis by (auto simp: read_queue_info_def send_def)
      next
        case qi: (Inr queue_info)
        show ?thesis
        proof (cases "truthy queue_info")
          case False
          with qi rq show ?thesis by (auto simp: read_queue_info_def send_def)
        next
          case True
          show ?thesis
          proof (cases queue_info)
            case (PDict kvs)
            with True qi rq have "set_queue_timelimits kvs (send ConfigGet s) = (res, s')"
              by (simp add: read_queue_info_def)
            from set_queue_timelimits_state [OF this] show ?thesis
              by (simp add: send_def)
          qed (use True qi rq in \<open>auto simp: read_queue_info_def send_def\<close>)
        qed
      qed
    qed
  qed
  then show "stdout s' = stdout s" and "requests s' = requests s @ [ConfigGet]"
    and "syslog_log s' = syslog_log s"
    by simp_all
qed

lemma list_jobs_state:
  assumes "list_jobs W ts s = (res, s')"
  shows "stdout s' = stdout s" and "requests s' = requests s @ [JobListInactive ts]"
    and "syslog_log s' = syslog_log s"
  using assms
  by (auto simp: list_jobs_def get_jobs_def send_def Let_def split: sum.splits error.splits)

lemma enrich_jobs_state:
  assumes "enrich_jobs W js s = (res, s')"
  shows "stdout s' = stdout s \<and> syslog_log s' = syslog_log s \<and>
    (\<exists>ids. requests s' = requests s @ map KvsLookup ids)"
  using assms
proof (induction js arbitrary: s res s')
  case Nil
  then show ?case by simp
next
  case (Cons j js)
  show ?case
  proof (cases "j ''id''")
    case None
    with Cons.prems show ?thesis by simp
  next
    case (Some jid)
    let ?s1 = "send (KvsLookup jid) s"
    have one: "requests ?s1 = requests s @ map KvsLookup [jid]" "stdout ?s1 = stdout s"
      "syslog_log ?s1 = syslog_log s"
      by (simp_all add: send_def)
    have stop: ?thesis if "s' = ?s1"
      using that one by blast
    show ?thesis
    proof (cases "job_kvs_lookup W jid")
      case (Inl e)
      with Some Cons.prems have "s' = ?s1" by (simp add: Let_def)
      then show ?thesis by (rule stop)
    next
      case (Inr job_data)
      show ?thesis
      proof (cases "enrich_job job_data j")
        case (Inl e)
        with Inr Some Cons.prems have "s' = ?s1" by (simp add: Let_def)
        then show ?thesis by (rule stop)
      next
        case ej: (Inr j')
        obtain res2 s2 where rest: "enrich_jobs W js ?s1 = (res2, s2)"
          by (cases "enrich_jobs W js ?s1")
        with ej Inr Some Cons.prems have "s' = s2"
          by (auto simp: Let_def split: sum.splits)
        with Cons.IH [OF rest] obtain ids where
          "stdout s' = stdout ?s1" "syslog_log s' = syslog_log ?s1"
          "requests s' = requests ?s1 @ map KvsLookup ids"
          by blast
        with one have "stdout s' = stdout s" "syslog_log s' = syslog_log s"
          "requests s' = requests s @ map KvsLookup (jid # ids)"
          by simp_all
        then show ?thesis by blast
      qed
    qed
  qed
qed

lemma fetch_new_jobs_stdout:
  assumes "fetch_new_jobs E W lt s = (res, s')"
  shows "stdout s' = stdout s"
proof (cases "flux_connect W")
  case (Some msg)
  with assms show ?thesis by (auto simp: fetch_new_jobs_def syslog_def)
next
  case None
  obtain r1 s1 where a: "resolve_timestamp E W lt s = (r1, s1)"
    by (cases "resolve_timestamp E W lt s")
  show ?thesis
  proof (cases r1)
    case (Inl e)
    with None a assms resolve_timestamp_state(1) [OF a] show ?thesis
      by (simp add: fetch_new_jobs_def)
  next
    case (Inr ts)
    obtain r2 s2 where b: "get_queue_info W s1 = (r2, s2)"
      by (cases "get_queue_info W s1")
    show ?thesis
    proof (cases r2)
      case (Inl e)
      with Inr None a b assms resolve_timestamp_state(1) [OF a] get_queue_info_state(1) [OF b]
      show ?thesis by (simp add: fetch_new_jobs_def)
    next
      case u: (Inr u)
      obtain r3 s3 where c: "list_jobs W ts s2 = (r3, s3)"
        by (cases "list_jobs W ts s2")
      show ?thesis
      proof (cases r3)
        case (Inl e)
        with u Inr None a b c assms resolve_timestamp_state(1) [OF a]
          get_queue_info_state(1) [OF b] list_jobs_state(1) [OF c]
        show ?thesis by (simp add: fetch_new_jobs_def)
      next
        case js: (Inr jobs)
        with u Inr None a b c assms have "enrich_jobs W jobs s3 = (res, s')"
          by (simp add: fetch_new_jobs_def)
        from enrich_jobs_state [OF this] resolve_timestamp_state(1) [OF a]
          get_queue_info_state(1) [OF b] list_jobs_state(1) [OF c]
        show ?thesis by simp
      qed
    qed
  qed
qed

section \<open>Direct copies\<close>

text \<open>
  Claim C4, as stated: a direct-copy field is in the record with the raw value when the
  job has the attribute, and is omitted from the record when the job has not. The
  second half fails for a job without any attribute: its record has the key
  \<^verbatim>\<open>job.id\<close>, with the value \<^verbatim>\<open>None\<close>.
\<close>

theorem direct_copies_counterexample:
  "empty_job ''id'' = None \<and>
   fields rec_job ''id'' (create_job_dicts example_env Map.empty [empty_job])
     = Inr [Some PNone] \<and>
   fields rec_job ''id'' (create_job_dicts example_env Map.empty [empty_job])
     \<noteq> Inr [None]"
  by (simp add: fields_def field_values_def batch_defs empty_job_def step_defs op_defs
      example_defs)

text \<open>
  Claim C4, amended: every direct-copy field is in the record of the job, whether the
  job has the attribute or not, and its value is \<^verbatim>\<open>job.get(attribute)\<close>: the raw
  value of the attribute when the job has it, \<^verbatim>\<open>None\<close> when it has not.
\<close>

theorem direct_copy_fields:
  assumes "create_job_dicts E qtl jobs = Inr out" and "j \<in> set jobs"
  shows "\<exists>r\<in>set out. job_dict E qtl j = Inr r \<and>
     rec_job r ''id'' = Some (get j ''id'') \<and>
     rec_user r ''id'' = Some (get j ''userid'') \<and>
     rec_job r ''name'' = Some (get j ''name'') \<and>
     rec_job r ''priority'' = Some (get j ''priority'') \<and>
     rec_job r ''state'' = Some (get j ''state'') \<and>
     rec_job r ''bank'' = Some (get j ''bank'') \<and>
     rec_job r ''queue'' = Some (get j ''queue'') \<and>
     rec_job r ''project'' = Some (get j ''project'') \<and>
     rec_job r ''jobspec'' = Some (get j ''jobspec'') \<and>
     rec_job r ''eventlog'' = Some (get j ''eventlog'') \<and>
     rec_job r ''requested_duration'' = Some (get j ''duration'') \<and>
     rec_node r ''list'' = Some (get j ''nodelist'') \<and>
     rec_node r ''count'' = Some (get j ''nnodes'') \<and>
     rec_task r ''count'' = Some (get j ''ntasks'') \<and>
     rec_job r ''cwd'' = Some (get j ''cwd'') \<and>
     rec_job r ''urgency'' = Some (get j ''urgency'') \<and>
     rec_job r ''success'' = Some (get j ''success'') \<and>
     rec_job r ''exit_code'' = Some (get j ''waitstatus'') \<and>
     rec_job r ''t_submit'' = Some (get j ''t_submit'') \<and>
     rec_job r ''t_run'' = Some (get j ''t_run'') \<and>
     rec_job r ''t_inactive'' = Some (get j ''t_inactive'') \<and>
     rec_job r ''t_cleanup'' = Some (get j ''t_cleanup'') \<and>
     (\<forall>k. get j k = (case j k of Some v \<Rightarrow> v | None \<Rightarrow> PNone))"
proof -
  from create_job_dicts_record [OF assms] obtain r where r: "r \<in> set out"
    and jd: "job_dict E qtl j = Inr r"
    by blast
  have "rec_job r ''id'' = Some (get j ''id'')"
    and "rec_user r ''id'' = Some (get j ''userid'')"
    and "rec_job r ''name'' = Some (get j ''name'')"
    and "rec_job r ''priority'' = Some (get j ''priority'')"
    and "rec_job r ''state'' = Some (get j ''state'')"
    and "rec_job r ''bank'' = Some (get j ''bank'')"
    and "rec_job r ''queue'' = Some (get j ''queue'')"
    and "rec_job r ''project'' = Some (get j ''project'')"
    and "rec_job r ''jobspec'' = Some (get j ''jobspec'')"
    and "rec_job r ''eventlog'' = Some (get j ''eventlog'')"
    and "rec_job r ''requested_duration'' = Some (get j ''duration'')"
    and "rec_node r ''list'' = Some (get j ''nodelist'')"
    and "rec_node r ''count'' = Some (get j ''nnodes'')"
    and "rec_task r ''count'' = Some (get j ''ntasks'')"
    and "rec_job r ''cwd'' = Some (get j ''cwd'')"
    and "rec_job r ''urgency'' = Some (get j ''urgency'')"
    and "rec_job r ''success'' = Some (get j ''success'')"
    and "rec_job r ''exit_code'' = Some (get j ''waitstatus'')"
    and "rec_job r ''t_submit'' = Some (get j ''t_submit'')"
    and "rec_job r ''t_run'' = Some (get j ''t_run'')"
    and "rec_job r ''t_inactive'' = Some (get j ''t_inactive'')"
    and "rec_job r ''t_cleanup'' = Some (get j ''t_cleanup'')"
    by (simp_all add: job_dict_rec_job [OF jd] job_dict_rec_other [OF jd] copy_fields_def)
  moreover have "\<forall>k. get j k = (case j k of Some v \<Rightarrow> v | None \<Rightarrow> PNone)"
    by (simp add: get_def)
  ultimately show ?thesis using r jd by blast
qed

text \<open>A job with an id and a name, and no priority.\<close>

theorem direct_copy_fields_witness:
  "\<exists>out. create_job_dicts example_env Map.empty [named_job] = Inr out \<and>
     named_job \<in> set [named_job] \<and>
     (\<exists>r\<in>set out. job_dict example_env Map.empty named_job = Inr r \<and>
        rec_job r ''id'' = Some (PInt 7) \<and>
        rec_job r ''name'' = Some (PStr ''sleep'') \<and>
        rec_job r ''priority'' = Some PNone)"
proof -
  have "\<not> isl (create_job_dicts example_env Map.empty [named_job])"
    by (simp add: batch_defs named_job_def step_defs op_defs example_defs)
  then obtain out where out: "create_job_dicts example_env Map.empty [named_job] = Inr out"
    using result_cases by blast
  have mem: "named_job \<in> set [named_job]" by simp
  from direct_copy_fields [OF out mem] obtain r where "r \<in> set out"
    "job_dict example_env Map.empty named_job = Inr r"
    "rec_job r ''id'' = Some (PInt 7)"
    "rec_job r ''name'' = Some (PStr ''sleep'')"
    "rec_job r ''priority'' = Some PNone"
    by (auto simp: named_job_def get_def)
  with out mem show ?thesis by blast
qed

section \<open>Outcome\<close>

lemma outcome_table:
  "map_of OUTCOME_CONVERSION c = Some s \<longleftrightarrow>
     c = 1 \<and> s = ''COMPLETED'' \<or> c = 2 \<and> s = ''FAILED'' \<or>
     c = 4 \<and> s = ''CANCELLED'' \<or> c = 8 \<and> s = ''TIMEOUT''"
  by (auto simp: OUTCOME_CONVERSION_def)

lemma outcome_of_Inr:
  "outcome_of v = Inr s \<longleftrightarrow>
     hashable v \<and> (\<exists>c. int_key v = Some c \<and> map_of OUTCOME_CONVERSION c = Some s)"
  by (auto simp: outcome_of_def split: option.splits)

lemma outcome_of_Inl: "outcome_of v = Inl e \<Longrightarrow> e = KeyError \<or> e = TypeError"
  by (auto simp: outcome_of_def split: option.splits if_splits)

lemma outcome_of_unknown:
  assumes "int_key v \<notin> {Some 1, Some 2, Some 4, Some 8}"
  shows "outcome_of v = Inl KeyError \<or> outcome_of v = Inl TypeError"
proof (cases "outcome_of v")
  case (Inl e)
  then show ?thesis using outcome_of_Inl by blast
next
  case (Inr s)
  then obtain c where "int_key v = Some c" and "map_of OUTCOME_CONVERSION c = Some s"
    by (auto simp: outcome_of_Inr)
  with assms show ?thesis by (auto simp: outcome_table)
qed

text \<open>The lookup of the outcome is the first step that can raise.\<close>

lemma job_dict_outcome_raises:
  assumes "get j ''result'' \<noteq> PNone" and "outcome_of (get j ''result'') = Inl e"
  shows "job_dict E qtl j = Inl e"
  using assms by (simp add: job_dict_def set_outcome_def)




section \<open>One unknown result code ends the batch\<close>

lemma job_dicts_raises:
  "j \<in> set jobs \<Longrightarrow> isl (job_dict E qtl j) \<Longrightarrow> isl (job_dicts E qtl jobs)"
proof (induction jobs)
  case Nil
  then show ?case by simp
next
  case (Cons a jobs)
  show ?case
  proof (cases "job_dict E qtl a")
    case (Inl e)
    then show ?thesis by simp
  next
    case (Inr r)
    with Cons have "isl (job_dicts E qtl jobs)" by auto
    with Inr show ?thesis by (cases "job_dicts E qtl jobs") simp_all
  qed
qed

lemma job_dicts_first_error:
  assumes "\<forall>p\<in>set pre. \<not> isl (job_dict E qtl p)" and "job_dict E qtl j = Inl e"
  shows "job_dicts E qtl (pre @ j # post) = Inl e"
  using assms
proof (induction pre)
  case Nil
  then show ?case by simp
next
  case (Cons a pre)
  then obtain r where "job_dict E qtl a = Inr r"
    by (cases "job_dict E qtl a") auto
  with Cons show ?case by simp
qed

lemma create_job_dicts_raises:
  "isl (job_dicts E qtl jobs) \<Longrightarrow> create_job_dicts E qtl jobs = job_dicts E qtl jobs"
  by (cases "job_dicts E qtl jobs") (simp_all add: create_job_dicts_def)

lemma main_state:
  shows "requests (snd (main E W since s)) = requests (snd (fetch_new_jobs E W (optional_int since) s))"
    and "syslog_log (snd (main E W since s)) = syslog_log (snd (fetch_new_jobs E W (optional_int since) s))"
  by (auto simp: main_def split: prod.splits sum.splits)

text \<open>
  Claim C10. If a job of the input has a result code that is not \<^verbatim>\<open>None\<close> and is
  none of 1, 2, 4 and 8, \<open>create_job_dicts\<close> raises and returns no record at all; when
  the jobs before it map without an exception, what it raises is the lookup's
  \<^verbatim>\<open>KeyError\<close> (\<^verbatim>\<open>TypeError\<close> for an unhashable code); and a run that fetched such
  a job ends with the exception and has printed nothing.
\<close>

theorem unknown_result_aborts_batch:
  assumes "j \<in> set jobs" and "get j ''result'' \<noteq> PNone"
    and "int_key (get j ''result'') \<notin> {Some 1, Some 2, Some 4, Some 8}"
  shows "(\<exists>e. create_job_dicts E qtl jobs = Inl e) \<and>
    (\<forall>pre post. jobs = pre @ j # post \<and> (\<forall>p\<in>set pre. \<not> isl (job_dict E qtl p)) \<longrightarrow>
       create_job_dicts E qtl jobs = Inl KeyError \<or> create_job_dicts E qtl jobs = Inl TypeError) \<and>
    (\<forall>W since s. fst (fetch_new_jobs E W (optional_int since) s) = Inr jobs \<longrightarrow>
       isl (fst (main E W since s)) \<and> stdout (snd (main E W since s)) = stdout s)"
proof -
  have bad: "job_dict E q j = Inl KeyError \<or> job_dict E q j = Inl TypeError" for q
    using assms(2,3) outcome_of_unknown [of "get j ''result''"] job_dict_outcome_raises [of j _ E q]
    by blast
  have all: "isl (create_job_dicts E q jobs)" for q
  proof -
    from bad [of q] have "isl (job_dict E q j)" by auto
    with assms(1) have "isl (job_dicts E q jobs)" by (rule job_dicts_raises)
    then show ?thesis by (simp add: create_job_dicts_raises)
  qed
  have first: "\<exists>e. create_job_dicts E qtl jobs = Inl e"
    using all [of qtl] by (cases "create_job_dicts E qtl jobs") simp_all
  have second: "create_job_dicts E qtl jobs = Inl KeyError \<or> create_job_dicts E qtl jobs = Inl TypeError"
    if "jobs = pre @ j # post \<and> (\<forall>p\<in>set pre. \<not> isl (job_dict E qtl p))" for pre post
  proof -
    from bad [of qtl] obtain e where e: "job_dict E qtl j = Inl e" "e = KeyError \<or> e = TypeError"
      by blast
    with that have "job_dicts E qtl jobs = Inl e"
      using job_dicts_first_error by blast
    then have "create_job_dicts E qtl jobs = Inl e"
      by (simp add: create_job_dicts_def)
    with e(2) show ?thesis by blast
  qed
  have third: "isl (fst (main E W since s)) \<and> stdout (snd (main E W since s)) = stdout s"
    if f: "fst (fetch_new_jobs E W (optional_int since) s) = Inr jobs" for W since s
  proof -
    obtain s1 where s1: "fetch_new_jobs E W (optional_int since) s = (Inr jobs, s1)"
      using f by (cases "fetch_new_jobs E W (optional_int since) s") auto
    from all [of "queue_timelimits s1"] obtain e where
      "create_job_dicts E (queue_timelimits s1) jobs = Inl e"
      by (cases "create_job_dicts E (queue_timelimits s1) jobs") simp_all
    with s1 have "main E W since s = (Inl e, s1)"
      by (simp add: main_def)
    with fetch_new_jobs_stdout [OF s1] show ?thesis by simp
  qed
  from first second third show ?thesis by blast
qed

text \<open>
  A batch of a cancelled job and a job with the result code 3, and a run that fetches
  the two (the job manager holds no data about them).
\<close>

theorem unknown_result_aborts_batch_witness:
  "unknown_result_job \<in> set [cancelled_job, unknown_result_job] \<and>
   get unknown_result_job ''result'' \<noteq> PNone \<and>
   int_key (get unknown_result_job ''result'') \<notin> {Some 1, Some 2, Some 4, Some 8} \<and>
   \<not> isl (job_dict example_env Map.empty cancelled_job) \<and>
   create_job_dicts example_env Map.empty [cancelled_job, unknown_result_job] = Inl KeyError \<and>
   fst (fetch_new_jobs example_env
          (example_world FileNotFound [cancelled_job, unknown_result_job] PNone)
          (optional_int None) initial_state) = Inr [cancelled_job, unknown_result_job] \<and>
   isl (fst (main example_env
          (example_world FileNotFound [cancelled_job, unknown_result_job] PNone)
          None initial_state)) \<and>
   stdout (snd (main example_env
          (example_world FileNotFound [cancelled_job, unknown_result_job] PNone)
          None initial_state)) = []"
proof -
  let ?jobs = "[cancelled_job, unknown_result_job]"
  let ?W = "example_world FileNotFound ?jobs PNone"
  have mem: "unknown_result_job \<in> set ?jobs" by simp
  have u1: "get unknown_result_job ''result'' \<noteq> PNone"
    by (simp add: unknown_result_job_def get_def)
  have u2: "int_key (get unknown_result_job ''result'') \<notin> {Some 1, Some 2, Some 4, Some 8}"
    by (simp add: unknown_result_job_def get_def int_key_def)
  have ok: "\<not> isl (job_dict example_env Map.empty cancelled_job)"
    by (simp add: job_dict_def cancelled_job_def step_defs op_defs example_defs)
  have bad: "job_dict example_env Map.empty unknown_result_job = Inl KeyError"
    by (simp add: job_dict_def unknown_result_job_def step_defs op_defs)
  have fetched: "fst (fetch_new_jobs example_env ?W (optional_int None) initial_state) = Inr ?jobs"
    by (simp add: fetch_new_jobs_def optional_int_def example_world_def resolve_timestamp_def
        get_queue_info_def read_queue_info_def example_config_def py_get_def queue_duration_def
        list_jobs_def get_jobs_def send_def enrich_job_def add_eventlog_def
        cancelled_job_def unknown_result_job_def initial_state_def)
  note inst = unknown_result_aborts_batch [OF mem u1 u2, of example_env Map.empty]
  from inst ok have "create_job_dicts example_env Map.empty ?jobs = Inl KeyError \<or>
      create_job_dicts example_env Map.empty ?jobs = Inl TypeError"
    by (metis append_Cons append_Nil empty_iff empty_set set_ConsD)
  moreover from ok bad have "create_job_dicts example_env Map.empty ?jobs \<noteq> Inl TypeError"
    by (cases "job_dict example_env Map.empty cancelled_job")
      (simp_all add: create_job_dicts_def)
  ultimately have batch: "create_job_dicts example_env Map.empty ?jobs = Inl KeyError"
    by blast
  from inst fetched have "isl (fst (main example_env ?W None initial_state)) \<and>
      stdout (snd (main example_env ?W None initial_state)) = stdout initial_state"
    by blast
  then have "isl (fst (main example_env ?W None initial_state))"
    "stdout (snd (main example_env ?W None initial_state)) = []"
    by (simp_all add: initial_state_def)
  with mem u1 u2 ok batch fetched show ?thesis by blast
qed

section \<open>Identity lookups that fail\<close>

lemma set_identity_fallback:
  assumes "getpwuid E uid = Inl e" and "caught_lookup e"
    and "getgrgid E (PStr []) = Inl e'" and "caught_lookup e'"
    and "uid \<noteq> PNone" and "get (rec_user r0) ''id'' = uid"
  shows "set_identity E r0 =
    Inr (r0\<lparr> rec_user := (rec_user r0)(''name'' \<mapsto> PStr (py_str E uid)),
             rec_group := (rec_group r0)(''id'' \<mapsto> PStr [], ''name'' \<mapsto> PStr []) \<rparr>)"
  using assms
  by (simp add: set_identity_def get_username_def get_gid_def get_groupname_def)

text \<open>
  Claim C9. For every job with a user id that is not \<^verbatim>\<open>None\<close> and whose lookups
  fail (\<^verbatim>\<open>pwd.getpwuid(uid)\<close> and then \<^verbatim>\<open>grp.getgrgid("")\<close> raise \<^verbatim>\<open>KeyError\<close>,
  \<^verbatim>\<open>ValueError\<close> or \<^verbatim>\<open>TypeError\<close>), the record of the job has \<^verbatim>\<open>user.name\<close>
  equal to \<^verbatim>\<open>str(uid)\<close>, the decimal digits of an int, and \<^verbatim>\<open>group.id\<close> and
  \<^verbatim>\<open>group.name\<close> equal to the empty string; the step that resolves the identity
  does not raise.
\<close>

theorem identity_fallback:
  assumes "getpwuid E uid = Inl e" and "caught_lookup e"
    and "getgrgid E (PStr []) = Inl e'" and "caught_lookup e'"
    and "uid \<noteq> PNone"
  shows "(\<forall>r0. get (rec_user r0) ''id'' = uid \<longrightarrow> \<not> isl (set_identity E r0)) \<and>
    (\<forall>n. uid = PInt n \<longrightarrow> py_str E uid = str_int n) \<and>
    (\<forall>qtl jobs out j.
       create_job_dicts E qtl jobs = Inr out \<and> j \<in> set jobs \<and> get j ''userid'' = uid \<longrightarrow>
       (\<exists>r\<in>set out. job_dict E qtl j = Inr r \<and>
          rec_user r ''name'' = Some (PStr (py_str E uid)) \<and>
          rec_group r ''id'' = Some (PStr []) \<and>
          rec_group r ''name'' = Some (PStr [])))"
proof (intro conjI allI impI)
  fix r0 :: out_rec
  assume "get (rec_user r0) ''id'' = uid"
  from set_identity_fallback [OF assms this] show "\<not> isl (set_identity E r0)"
    by simp
next
  fix n
  assume "uid = PInt n"
  then show "py_str E uid = str_int n" by simp
next
  fix qtl jobs out j
  assume a: "create_job_dicts E qtl jobs = Inr out \<and> j \<in> set jobs \<and> get j ''userid'' = uid"
  then obtain r where r: "r \<in> set out" and jd: "job_dict E qtl j = Inr r"
    using create_job_dicts_record by blast
  from jd obtain r1 r2 r3 r4 r5 r6 r7 r8 r9 r10 where
    s1: "set_outcome j (copy_fields j (new_rec E)) = Inr r1" and
    s2: "set_queue_maxtimelimit qtl r1 = Inr r2" and
    s3: "set_identity E r2 = Inr r3" and
    s4: "set_submittime E j r3 = Inr r4" and
    s5: "set_start E j r4 = Inr r5" and
    s6: "set_end E j r5 = Inr r6" and
    s7: "set_timelimit E j r6 = Inr r7" and
    s8: "set_eligible E j r7 = Inr r8" and
    s9: "set_duration E j r8 = Inr r9" and
    s10: "set_proc_count E j r9 = Inr r10" and
    fin: "r = set_scheduler (set_exception j r10)"
    by (rule job_dict_steps)
  have "get (rec_user r2) ''id'' = uid"
    using a
    by (simp add: set_queue_maxtimelimit_frame [OF s2] set_outcome_frame [OF s1]
        copy_fields_def get_def)
  from set_identity_fallback [OF assms this] s3
  have r3: "rec_user r3 ''name'' = Some (PStr (py_str E uid))"
    "rec_group r3 ''id'' = Some (PStr [])" "rec_group r3 ''name'' = Some (PStr [])"
    by auto
  have after: "rec_user r = rec_user r3" "rec_group r = rec_group r3"
    by (simp_all add: fin set_scheduler_frame set_exception_frame set_proc_count_frame [OF s10]
        set_duration_frame [OF s9] set_eligible_frame [OF s8] set_timelimit_frame [OF s7]
        set_end_frame [OF s6] set_start_frame [OF s5] set_submittime_frame [OF s4])
  with r3 r jd show "\<exists>r\<in>set out. job_dict E qtl j = Inr r \<and>
          rec_user r ''name'' = Some (PStr (py_str E uid)) \<and>
          rec_group r ''id'' = Some (PStr []) \<and>
          rec_group r ''name'' = Some (PStr [])"
    by auto
qed

text \<open>The uid 4242 is not in the password database of the example.\<close>

theorem identity_fallback_witness:
  "getpwuid example_env (PInt 4242) = Inl KeyError \<and> caught_lookup KeyError \<and>
   getgrgid example_env (PStr []) = Inl TypeError \<and> caught_lookup TypeError \<and>
   PInt 4242 \<noteq> PNone \<and>
   (\<exists>out. create_job_dicts example_env Map.empty [unknown_user_job] = Inr out \<and>
      unknown_user_job \<in> set [unknown_user_job] \<and>
      get unknown_user_job ''userid'' = PInt 4242 \<and>
      (\<exists>r\<in>set out. job_dict example_env Map.empty unknown_user_job = Inr r \<and>
         rec_user r ''name'' = Some (PStr ''4242'') \<and>
         rec_group r ''id'' = Some (PStr []) \<and>
         rec_group r ''name'' = Some (PStr [])))"
proof -
  have pw: "getpwuid example_env (PInt 4242) = Inl KeyError"
    by (simp add: example_defs)
  have gr: "getgrgid example_env (PStr []) = Inl TypeError"
    by (simp add: example_defs)
  have c1: "caught_lookup KeyError" and c2: "caught_lookup TypeError"
    by (simp_all add: caught_lookup_def)
  have nn: "PInt 4242 \<noteq> PNone" by simp
  have "\<not> isl (create_job_dicts example_env Map.empty [unknown_user_job])"
    by (simp add: batch_defs unknown_user_job_def step_defs op_defs example_defs)
  then obtain out where out: "create_job_dicts example_env Map.empty [unknown_user_job] = Inr out"
    using result_cases by blast
  have mem: "unknown_user_job \<in> set [unknown_user_job]" by simp
  have uid: "get unknown_user_job ''userid'' = PInt 4242"
    by (simp add: unknown_user_job_def get_def)
  have digits: "str_int 4242 = ''4242''"
    by (simp add: str_int_def str_nat_small str_nat_large)
  from identity_fallback [OF pw c1 gr c2 nn] out mem uid
  obtain r where "r \<in> set out" "job_dict example_env Map.empty unknown_user_job = Inr r"
    "rec_user r ''name'' = Some (PStr (py_str example_env (PInt 4242)))"
    "rec_group r ''id'' = Some (PStr [])" "rec_group r ''name'' = Some (PStr [])"
    by blast
  with digits out mem uid have "\<exists>out. create_job_dicts example_env Map.empty [unknown_user_job] = Inr out \<and>
      unknown_user_job \<in> set [unknown_user_job] \<and>
      get unknown_user_job ''userid'' = PInt 4242 \<and>
      (\<exists>r\<in>set out. job_dict example_env Map.empty unknown_user_job = Inr r \<and>
         rec_user r ''name'' = Some (PStr ''4242'') \<and>
         rec_group r ''id'' = Some (PStr []) \<and>
         rec_group r ''name'' = Some (PStr []))"
    by auto
  with pw gr c1 c2 nn show ?thesis by blast
qed

section \<open>Eligible time and queue time\<close>




section \<open>Execution duration\<close>



section \<open>Process count\<close>



section \<open>Sorting by submit time\<close>

text \<open>
  The key of a record is the submit time of its job, or the string \<^verbatim>\<open>"0.0"\<close> when
  the job has none.
\<close>

lemma job_dict_submittime_epoch:
  assumes "job_dict E qtl j = Inr r"
  shows "rec_job r ''submittime_epoch'' =
    (if get j ''t_submit'' \<noteq> PNone then Some (get j ''t_submit'') else None)"
proof -
  from assms obtain r1 r2 r3 r4 r5 r6 r7 r8 r9 r10 where
    s1: "set_outcome j (copy_fields j (new_rec E)) = Inr r1" and
    s2: "set_queue_maxtimelimit qtl r1 = Inr r2" and
    s3: "set_identity E r2 = Inr r3" and
    s4: "set_submittime E j r3 = Inr r4" and
    s5: "set_start E j r4 = Inr r5" and
    s6: "set_end E j r5 = Inr r6" and
    s7: "set_timelimit E j r6 = Inr r7" and
    s8: "set_eligible E j r7 = Inr r8" and
    s9: "set_duration E j r8 = Inr r9" and
    s10: "set_proc_count E j r9 = Inr r10" and
    fin: "r = set_scheduler (set_exception j r10)"
    by (rule job_dict_steps)
  have before: "rec_job r3 ''submittime_epoch'' = None"
    by (simp add: set_identity_frame [OF s3] set_queue_maxtimelimit_frame [OF s2]
        set_outcome_frame [OF s1] copy_fields_def new_rec_def)
  have after: "rec_job r ''submittime_epoch'' = rec_job r4 ''submittime_epoch''"
    by (simp add: fin set_scheduler_frame set_exception_frame set_proc_count_frame [OF s10]
        set_duration_frame [OF s9] set_eligible_frame [OF s8] set_timelimit_frame [OF s7]
        set_end_frame [OF s6] set_start_frame [OF s5])
  from s4 before have "rec_job r4 ''submittime_epoch'' =
    (if get j ''t_submit'' \<noteq> PNone then Some (get j ''t_submit'') else None)"
    by (auto simp: set_submittime_def bindE_eq_Inr split: if_splits)
  with after show ?thesis by simp
qed

lemma job_dict_sort_key:
  assumes "job_dict E qtl j = Inr r"
  shows "sort_key r = (if get j ''t_submit'' \<noteq> PNone then get j ''t_submit'' else PStr ''0.0'')"
  by (simp add: sort_key_def job_dict_submittime_epoch [OF assms])

text \<open>A string and a number do not compare; two numbers and two strings do.\<close>

lemma py_lt_numbers:
  "as_number a = Some x \<Longrightarrow> as_number b = Some y \<Longrightarrow> py_lt E a b = Inr (exact x < exact y)"
  by (simp add: py_lt_def)

lemma py_lt_strings: "py_lt E (PStr s) (PStr t) = Inr (str_lt s t)"
  by (simp add: py_lt_def)

lemma py_lt_string_number: "as_number b \<noteq> None \<Longrightarrow> py_lt E (PStr s) b = Inl TypeError"
  by (cases b) (simp_all add: py_lt_def)

lemma py_lt_number_string: "as_number a \<noteq> None \<Longrightarrow> py_lt E a (PStr s) = Inl TypeError"
  by (cases a) (simp_all add: py_lt_def)

lemma insert_sorted_numbers:
  "\<forall>r\<in>set (x # ys). as_number (sort_key r) \<noteq> None \<Longrightarrow> \<exists>zs. insert_sorted E x ys = Inr zs"
proof (induction ys)
  case Nil
  then show ?case by simp
next
  case (Cons y ys)
  then obtain a b where "as_number (sort_key x) = Some a" "as_number (sort_key y) = Some b"
    by auto
  then have lt: "py_lt E (sort_key x) (sort_key y) = Inr (exact a < exact b)"
    by (rule py_lt_numbers)
  from Cons obtain zs where "insert_sorted E x ys = Inr zs" by auto
  with lt show ?case by simp
qed

lemma insert_sorted_strings:
  "\<forall>r\<in>set (x # ys). \<exists>s. sort_key r = PStr s \<Longrightarrow> \<exists>zs. insert_sorted E x ys = Inr zs"
proof (induction ys)
  case Nil
  then show ?case by simp
next
  case (Cons y ys)
  then obtain s t where "sort_key x = PStr s" "sort_key y = PStr t"
    by auto
  then have lt: "py_lt E (sort_key x) (sort_key y) = Inr (str_lt s t)"
    by (simp add: py_lt_strings)
  from Cons obtain zs where "insert_sorted E x ys = Inr zs" by auto
  with lt show ?case by simp
qed

lemma insert_sorted_string_into_numbers:
  assumes "ys \<noteq> []" and "\<forall>r\<in>set ys. as_number (sort_key r) \<noteq> None" and "sort_key x = PStr s"
  shows "insert_sorted E x ys = Inl TypeError"
proof (cases ys)
  case Nil
  with assms(1) show ?thesis by simp
next
  case (Cons y ys')
  with assms(2) have "as_number (sort_key y) \<noteq> None" by simp
  with assms(3) Cons show ?thesis by (simp add: py_lt_string_number)
qed

lemma insert_sorted_number_into_strings:
  assumes "ys \<noteq> []" and "\<forall>r\<in>set ys. \<exists>s. sort_key r = PStr s"
    and "as_number (sort_key x) \<noteq> None"
  shows "insert_sorted E x ys = Inl TypeError"
proof (cases ys)
  case Nil
  with assms(1) show ?thesis by simp
next
  case (Cons y ys')
  with assms(2) obtain s where "sort_key y = PStr s" by auto
  with assms(3) Cons show ?thesis by (simp add: py_lt_number_string)
qed

text \<open>
  The sort of records whose keys are numbers or strings raises \<^verbatim>\<open>TypeError\<close> as soon
  as both kinds occur. \<open>acc\<close> is the part sorted so far, with keys of one kind.
\<close>

lemma sort_loop_mixed:
  assumes "\<forall>r\<in>set (acc @ xs). as_number (sort_key r) \<noteq> None \<or> (\<exists>s. sort_key r = PStr s)"
    and "(\<forall>r\<in>set acc. as_number (sort_key r) \<noteq> None) \<or> (\<forall>r\<in>set acc. \<exists>s. sort_key r = PStr s)"
    and "\<exists>r\<in>set (acc @ xs). as_number (sort_key r) \<noteq> None"
    and "\<exists>r\<in>set (acc @ xs). \<exists>s. sort_key r = PStr s"
  shows "sort_loop E acc xs = Inl TypeError"
  using assms
proof (induction xs arbitrary: acc)
  case Nil
  then show ?case by auto
next
  case (Cons x xs)
  have kind: "as_number (sort_key x) \<noteq> None \<or> (\<exists>s. sort_key x = PStr s)"
    using Cons.prems(1) by simp
  have continue: "sort_loop E acc (x # xs) = Inl TypeError"
    if ins: "insert_sorted E x acc = Inr zs"
      and hom: "(\<forall>r\<in>set zs. as_number (sort_key r) \<noteq> None) \<or> (\<forall>r\<in>set zs. \<exists>s. sort_key r = PStr s)"
    for zs
  proof -
    from insert_sorted_set [OF ins] have eq: "set (zs @ xs) = set (acc @ x # xs)" by auto
    have "sort_loop E zs xs = Inl TypeError"
    proof (rule Cons.IH)
      show "\<forall>r\<in>set (zs @ xs). as_number (sort_key r) \<noteq> None \<or> (\<exists>s. sort_key r = PStr s)"
        using Cons.prems(1) unfolding eq .
      show "(\<forall>r\<in>set zs. as_number (sort_key r) \<noteq> None) \<or> (\<forall>r\<in>set zs. \<exists>s. sort_key r = PStr s)"
        by (rule hom)
      show "\<exists>r\<in>set (zs @ xs). as_number (sort_key r) \<noteq> None"
        using Cons.prems(3) unfolding eq .
      show "\<exists>r\<in>set (zs @ xs). \<exists>s. sort_key r = PStr s"
        using Cons.prems(4) unfolding eq .
    qed
    with ins show ?thesis by simp
  qed
  show ?case
  proof (cases "acc = []")
    case True
    then have "insert_sorted E x acc = Inr [x]" by simp
    moreover from kind
    have "(\<forall>r\<in>set [x]. as_number (sort_key r) \<noteq> None) \<or> (\<forall>r\<in>set [x]. \<exists>s. sort_key r = PStr s)"
      by simp
    ultimately show ?thesis by (rule continue)
  next
    case False
    from Cons.prems(2) show ?thesis
    proof
      assume nums: "\<forall>r\<in>set acc. as_number (sort_key r) \<noteq> None"
      from kind show ?thesis
      proof
        assume x: "as_number (sort_key x) \<noteq> None"
        with nums have all: "\<forall>r\<in>set (x # acc). as_number (sort_key r) \<noteq> None" by simp
        then obtain zs where ins: "insert_sorted E x acc = Inr zs"
          using insert_sorted_numbers by blast
        from insert_sorted_set [OF ins] all
        have "\<forall>r\<in>set zs. as_number (sort_key r) \<noteq> None" by simp
        with ins show ?thesis using continue by blast
      next
        assume "\<exists>s. sort_key x = PStr s"
        then obtain s where "sort_key x = PStr s" ..
        from insert_sorted_string_into_numbers [OF False nums this]
        show ?thesis by simp
      qed
    next
      assume strs: "\<forall>r\<in>set acc. \<exists>s. sort_key r = PStr s"
      from kind show ?thesis
      proof
        assume x: "as_number (sort_key x) \<noteq> None"
        from insert_sorted_number_into_strings [OF False strs this]
        show ?thesis by simp
      next
        assume x: "\<exists>s. sort_key x = PStr s"
        with strs have all: "\<forall>r\<in>set (x # acc). \<exists>s. sort_key r = PStr s" by simp
        then obtain zs where ins: "insert_sorted E x acc = Inr zs"
          using insert_sorted_strings by blast
        from insert_sorted_set [OF ins] all
        have "\<forall>r\<in>set zs. \<exists>s. sort_key r = PStr s" by simp
        with ins show ?thesis using continue by blast
      qed
    qed
  qed
qed

lemma job_dicts_records:
  "job_dicts E qtl jobs = Inr rs \<Longrightarrow> r \<in> set rs \<Longrightarrow> \<exists>j\<in>set jobs. job_dict E qtl j = Inr r"
proof (induction jobs arbitrary: rs)
  case Nil
  then show ?case by simp
next
  case (Cons a jobs)
  then show ?case
    by (auto simp: bindE_eq_Inr)
qed

text \<open>
  So a batch in which one job has a number as submit time and another has no submit
  time never comes back sorted: when every job maps to a record, the sort raises
  \<^verbatim>\<open>TypeError\<close>.
\<close>

lemma create_job_dicts_mixed_submit_times:
  assumes "\<forall>j\<in>set jobs. get j ''t_submit'' = PNone \<or> as_number (get j ''t_submit'') \<noteq> None"
    and "j1 \<in> set jobs" and "get j1 ''t_submit'' = PNone"
    and "j2 \<in> set jobs" and "as_number (get j2 ''t_submit'') \<noteq> None"
    and "job_dicts E qtl jobs = Inr rs"
  shows "create_job_dicts E qtl jobs = Inl TypeError"
proof -
  have kinds: "as_number (sort_key r) \<noteq> None \<or> (\<exists>s. sort_key r = PStr s)" if "r \<in> set rs" for r
  proof -
    from job_dicts_records [OF assms(6) that] obtain j where j: "j \<in> set jobs"
      and jd: "job_dict E qtl j = Inr r"
      by blast
    from assms(1) j have "get j ''t_submit'' = PNone \<or> as_number (get j ''t_submit'') \<noteq> None"
      by blast
    then show ?thesis
      by (auto simp: job_dict_sort_key [OF jd])
  qed
  from job_dicts_member [OF assms(6) assms(2)] obtain r1 where r1: "r1 \<in> set rs"
    and jd1: "job_dict E qtl j1 = Inr r1"
    by blast
  from job_dicts_member [OF assms(6) assms(4)] obtain r2 where r2: "r2 \<in> set rs"
    and jd2: "job_dict E qtl j2 = Inr r2"
    by blast
  have str: "\<exists>s. sort_key r1 = PStr s"
    using assms(3) by (simp add: job_dict_sort_key [OF jd1])
  have num: "as_number (sort_key r2) \<noteq> None"
    using assms(5) by (auto simp: job_dict_sort_key [OF jd2])
  have "sort_loop E [] rs = Inl TypeError"
  proof (rule sort_loop_mixed)
    show "\<forall>r\<in>set ([] @ rs). as_number (sort_key r) \<noteq> None \<or> (\<exists>s. sort_key r = PStr s)"
      using kinds by simp
    show "(\<forall>r\<in>set []. as_number (sort_key r) \<noteq> None) \<or> (\<forall>r\<in>set []. \<exists>s. sort_key r = PStr s)"
      by simp
    show "\<exists>r\<in>set ([] @ rs). as_number (sort_key r) \<noteq> None"
      using r2 num by auto
    show "\<exists>r\<in>set ([] @ rs). \<exists>s. sort_key r = PStr s"
      using r1 str by auto
  qed
  with assms(6) show ?thesis
    by (simp add: create_job_dicts_def sorted_by_key_def)
qed

text \<open>
  When every key is a number the sort returns, and no record of its result is less than
  an earlier one: the records are in ascending order of submit time.
\<close>

lemma not_less_numbers:
  assumes "as_number (sort_key a) = Some x" and "as_number (sort_key b) = Some y"
  shows "py_lt E (sort_key b) (sort_key a) = Inr False \<longleftrightarrow> exact x \<le> exact y"
  using py_lt_numbers [OF assms(2) assms(1), of E] by auto

lemma insert_sorted_ascending:
  assumes "\<forall>r\<in>set (x # ys). as_number (sort_key r) \<noteq> None"
    and "sorted_wrt (\<lambda>a b. py_lt E (sort_key b) (sort_key a) = Inr False) ys"
    and "insert_sorted E x ys = Inr zs"
  shows "sorted_wrt (\<lambda>a b. py_lt E (sort_key b) (sort_key a) = Inr False) zs"
  using assms
proof (induction ys arbitrary: zs)
  case Nil
  then show ?case by auto
next
  case (Cons y ys)
  from Cons.prems(1) obtain ex ey where ex: "as_number (sort_key x) = Some ex"
    and ey: "as_number (sort_key y) = Some ey"
    by auto
  have lt: "py_lt E (sort_key x) (sort_key y) = Inr (exact ex < exact ey)"
    using ex ey by (rule py_lt_numbers)
  show ?case
  proof (cases "exact ex < exact ey")
    case True
    with lt Cons.prems(3) have zs: "zs = x # y # ys" by simp
    have "py_lt E (sort_key z) (sort_key x) = Inr False" if "z \<in> set (y # ys)" for z
    proof -
      from that Cons.prems(1) obtain ez where ez: "as_number (sort_key z) = Some ez"
        by auto
      have "exact ey \<le> exact ez"
      proof (cases "z = y")
        case True
        with ey ez show ?thesis by simp
      next
        case False
        with that Cons.prems(2) have "py_lt E (sort_key z) (sort_key y) = Inr False"
          by auto
        with not_less_numbers [OF ey ez] show ?thesis by simp
      qed
      with True have "exact ex \<le> exact ez" by simp
      with not_less_numbers [OF ex ez] show ?thesis by simp
    qed
    with Cons.prems(2) zs show ?thesis by simp
  next
    case False
    with lt Cons.prems(3) obtain zs' where ins: "insert_sorted E x ys = Inr zs'"
      and zs: "zs = y # zs'"
      by (auto simp: bindE_eq_Inr)
    from Cons.prems(1,2) have "sorted_wrt (\<lambda>a b. py_lt E (sort_key b) (sort_key a) = Inr False) zs'"
      by (intro Cons.IH [OF _ _ ins]) auto
    moreover have "py_lt E (sort_key z) (sort_key y) = Inr False" if "z \<in> set zs'" for z
    proof (cases "z = x")
      case True
      from False have "exact ey \<le> exact ex" by simp
      with not_less_numbers [OF ey ex] True show ?thesis by simp
    next
      case neq: False
      with that insert_sorted_set [OF ins] have "z \<in> set ys" by simp
      with Cons.prems(2) show ?thesis by simp
    qed
    ultimately show ?thesis using zs by simp
  qed
qed

lemma sort_loop_ascending:
  assumes "\<forall>r\<in>set (acc @ xs). as_number (sort_key r) \<noteq> None"
    and "sorted_wrt (\<lambda>a b. py_lt E (sort_key b) (sort_key a) = Inr False) acc"
  shows "\<exists>out. sort_loop E acc xs = Inr out \<and> set out = set (acc @ xs) \<and>
    sorted_wrt (\<lambda>a b. py_lt E (sort_key b) (sort_key a) = Inr False) out"
  using assms
proof (induction xs arbitrary: acc)
  case Nil
  then show ?case by simp
next
  case (Cons x xs)
  from Cons.prems(1) have all: "\<forall>r\<in>set (x # acc). as_number (sort_key r) \<noteq> None"
    by simp
  then obtain zs where ins: "insert_sorted E x acc = Inr zs"
    using insert_sorted_numbers by blast
  from insert_sorted_set [OF ins] have eq: "set (zs @ xs) = set (acc @ x # xs)"
    by auto
  have "\<forall>r\<in>set (zs @ xs). as_number (sort_key r) \<noteq> None"
    using Cons.prems(1) unfolding eq .
  moreover have "sorted_wrt (\<lambda>a b. py_lt E (sort_key b) (sort_key a) = Inr False) zs"
    using all Cons.prems(2) ins by (rule insert_sorted_ascending)
  ultimately obtain out where "sort_loop E zs xs = Inr out" "set out = set (zs @ xs)"
    "sorted_wrt (\<lambda>a b. py_lt E (sort_key b) (sort_key a) = Inr False) out"
    using Cons.IH by blast
  with ins eq show ?case by simp
qed

lemma create_job_dicts_ascending:
  assumes "\<forall>j\<in>set jobs. as_number (get j ''t_submit'') \<noteq> None"
    and "job_dicts E qtl jobs = Inr rs"
  shows "\<exists>out. create_job_dicts E qtl jobs = Inr out \<and> set out = set rs \<and>
    sorted_wrt (\<lambda>a b. py_lt E (sort_key b) (sort_key a) = Inr False) out"
proof -
  have "as_number (sort_key r) \<noteq> None" if "r \<in> set rs" for r
  proof -
    from job_dicts_records [OF assms(2) that] obtain j where j: "j \<in> set jobs"
      and jd: "job_dict E qtl j = Inr r"
      by blast
    from assms(1) j have "as_number (get j ''t_submit'') \<noteq> None" by blast
    then show ?thesis
      by (auto simp: job_dict_sort_key [OF jd])
  qed
  then have "\<forall>r\<in>set ([] @ rs). as_number (sort_key r) \<noteq> None" by simp
  from sort_loop_ascending [OF this, of E] assms(2) show ?thesis
    by (simp add: create_job_dicts_def sorted_by_key_def)
qed

text \<open>
  Claim C2: the records are sorted by submit time, a record without one first, so that
  jobs submitted at 30, 10, never and 20 come out as never, 10, 20, 30. On these four
  jobs \<open>create_job_dicts\<close> raises \<^verbatim>\<open>TypeError\<close> and returns nothing: the key of
  the record without a submit time is the string \<^verbatim>\<open>"0.0"\<close>, and Python does not
  order a string and a number. Without the third job the three records come out in
  the order 10, 20, 30.
\<close>

theorem sort_missing_submit_time_raises:
  "raised (create_job_dicts example_env Map.empty
             [submitted_at 30, submitted_at 10, empty_job, submitted_at 20])
     = Some TypeError \<and>
   fields rec_job ''submittime_epoch'' (create_job_dicts example_env Map.empty
             [submitted_at 30, submitted_at 10, submitted_at 20])
     = Inr [Some (PInt 10), Some (PInt 20), Some (PInt 30)]"
  by (simp add: fields_def field_values_def batch_defs submitted_at_def empty_job_def
      step_defs op_defs example_defs iso_int_10 iso_int_20 iso_int_30)

section \<open>The timestamp to fetch from\<close>

lemma fetch_new_jobs_requests:
  assumes "fetch_new_jobs E W lt s = (res, s')" and "JobListInactive ts \<in> set (requests s')"
  shows "JobListInactive ts \<in> set (requests s) \<or> fst (resolve_timestamp E W lt s) = Inr ts"
proof (cases "flux_connect W")
  case (Some msg)
  with assms show ?thesis by (auto simp: fetch_new_jobs_def syslog_def)
next
  case None
  obtain r1 s1 where a: "resolve_timestamp E W lt s = (r1, s1)"
    by (cases "resolve_timestamp E W lt s")
  show ?thesis
  proof (cases r1)
    case (Inl e)
    with None a assms resolve_timestamp_state(2) [OF a] show ?thesis
      by (simp add: fetch_new_jobs_def)
  next
    case (Inr ts0)
    obtain r2 s2 where b: "get_queue_info W s1 = (r2, s2)"
      by (cases "get_queue_info W s1")
    show ?thesis
    proof (cases r2)
      case (Inl e)
      with Inr None a b assms resolve_timestamp_state(2) [OF a] get_queue_info_state(2) [OF b]
      show ?thesis by (auto simp: fetch_new_jobs_def)
    next
      case u: (Inr u)
      obtain r3 s3 where c: "list_jobs W ts0 s2 = (r3, s3)"
        by (cases "list_jobs W ts0 s2")
      have upto: "requests s3 = requests s @ [ConfigGet, JobListInactive ts0]"
        using resolve_timestamp_state(2) [OF a] get_queue_info_state(2) [OF b]
          list_jobs_state(2) [OF c]
        by simp
      show ?thesis
      proof (cases r3)
        case (Inl e)
        with u Inr None a b c assms have "s' = s3" by (simp add: fetch_new_jobs_def)
        with upto assms(2) a Inr show ?thesis by auto
      next
        case js: (Inr jobs)
        with u Inr None a b c assms have "enrich_jobs W jobs s3 = (res, s')"
          by (simp add: fetch_new_jobs_def)
        from enrich_jobs_state [OF this] obtain ids where
          "requests s' = requests s3 @ map KvsLookup ids"
          by blast
        with upto assms(2) a Inr show ?thesis by auto
      qed
    qed
  qed
qed

lemma fetch_new_jobs_sends:
  assumes "flux_connect W = None" and "resolve_timestamp E W lt s = (Inr ts, s1)"
    and "get_queue_info W s1 = (Inr u, s2)"
  shows "JobListInactive ts \<in> set (requests (snd (fetch_new_jobs E W lt s)))"
proof -
  obtain r3 s3 where c: "list_jobs W ts s2 = (r3, s3)"
    by (cases "list_jobs W ts s2")
  have sent: "JobListInactive ts \<in> set (requests s3)"
    using list_jobs_state(2) [OF c] by simp
  show ?thesis
  proof (cases r3)
    case (Inl e)
    with assms c have "fetch_new_jobs E W lt s = (Inl e, s3)"
      by (simp add: fetch_new_jobs_def)
    with sent show ?thesis by simp
  next
    case (Inr jobs)
    obtain r4 s4 where d: "enrich_jobs W jobs s3 = (r4, s4)"
      by (cases "enrich_jobs W jobs s3")
    with Inr assms c have "fetch_new_jobs E W lt s = (r4, s4)"
      by (simp add: fetch_new_jobs_def)
    moreover from enrich_jobs_state [OF d] sent have "JobListInactive ts \<in> set (requests s4)"
      by auto
    ultimately show ?thesis by simp
  qed
qed

lemma run_state:
  shows "requests (snd (run E W since)) = requests (snd (main E W since initial_state))"
    and "syslog_log (snd (run E W since)) = syslog_log (snd (main E W since initial_state))"
    and "stdout (snd (run E W since)) = stdout (snd (main E W since initial_state))"
    and "fst (run E W since) = exit_status (fst (main E W since initial_state))"
  by (simp_all add: run_def split: prod.splits)

text \<open>
  Claim C8. When \<^verbatim>\<open>--since\<close> is not given and the timestamp file does not exist, the
  timestamp that the run fetches from is \<^verbatim>\<open>0.0\<close>: no query for inactive jobs is sent
  with another \<^verbatim>\<open>since\<close>, and the query is sent with \<^verbatim>\<open>since=0.0\<close> as soon as the
  connection and the reading of the queue configuration succeed.
\<close>

theorem missing_timestamp_file_fetches_from_zero:
  assumes "timestamp_file W = FileNotFound"
  shows "fst (resolve_timestamp E W (optional_int None) s) = Inr (PFloat 0) \<and>
    (\<forall>ts. JobListInactive ts \<in> set (requests (snd (run E W None))) \<longrightarrow> ts = PFloat 0) \<and>
    (flux_connect W = None \<and> \<not> isl (fst (get_queue_info W initial_state)) \<longrightarrow>
       JobListInactive (PFloat 0) \<in> set (requests (snd (run E W None))))"
proof -
  have res: "resolve_timestamp E W (optional_int None) t = (Inr (PFloat 0), t)" for t
    using assms by (simp add: resolve_timestamp_def optional_int_def)
  have only: "ts = PFloat 0" if "JobListInactive ts \<in> set (requests (snd (run E W None)))" for ts
  proof -
    obtain r s' where f: "fetch_new_jobs E W (optional_int None) initial_state = (r, s')"
      by (cases "fetch_new_jobs E W (optional_int None) initial_state")
    with that have "JobListInactive ts \<in> set (requests s')"
      by (simp add: run_state main_state)
    from fetch_new_jobs_requests [OF f this] res [of initial_state] show ?thesis
      by (simp add: initial_state_def)
  qed
  have sent: "JobListInactive (PFloat 0) \<in> set (requests (snd (run E W None)))"
    if "flux_connect W = None \<and> \<not> isl (fst (get_queue_info W initial_state))"
  proof -
    obtain a s2 where g: "get_queue_info W initial_state = (a, s2)"
      by (cases "get_queue_info W initial_state")
    with that obtain u where "a = Inr u"
      by (cases a) auto
    with g that fetch_new_jobs_sends [OF _ res [of initial_state]] show ?thesis
      by (simp add: run_state main_state)
  qed
  from res [of s] only sent show ?thesis by auto
qed

text \<open>A first run: no timestamp file, one job listed.\<close>

theorem missing_timestamp_file_fetches_from_zero_witness:
  "timestamp_file (example_world FileNotFound [named_job] example_job_data) = FileNotFound \<and>
   flux_connect (example_world FileNotFound [named_job] example_job_data) = None \<and>
   \<not> isl (fst (get_queue_info (example_world FileNotFound [named_job] example_job_data)
               initial_state)) \<and>
   JobListInactive (PFloat 0)
     \<in> set (requests (snd (run example_env
                (example_world FileNotFound [named_job] example_job_data) None)))"
proof -
  let ?W = "example_world FileNotFound [named_job] example_job_data"
  have tsfile: "timestamp_file ?W = FileNotFound"
    by (simp add: example_world_def)
  have conn: "flux_connect ?W = None"
    by (simp add: example_world_def)
  have conf: "\<not> isl (fst (get_queue_info ?W initial_state))"
    by (simp add: get_queue_info_def read_queue_info_def example_world_def example_config_def
        py_get_def queue_duration_def send_def initial_state_def)
  from missing_timestamp_file_fetches_from_zero [OF tsfile, of example_env initial_state] conn conf
  have "JobListInactive (PFloat 0) \<in> set (requests (snd (run example_env ?W None)))"
    by blast
  with tsfile conn conf show ?thesis by blast
qed

section \<open>A timestamp file that does not hold a number\<close>

text \<open>
  Claim C7, as stated: if the timestamp file exists and its stripped content is not a
  float, the run logs an error, exits with a status other than 0 and prints no record.
  It fails in two cases, both with the file holding \<^verbatim>\<open>not-a-number\<close>. When the
  connection to Flux fails, the run exits with status 0 before the file is read. With
  \<^verbatim>\<open>--since 5\<close> the file is not read at all: the run logs nothing, prints the record
  of the job and ends with status 0.
\<close>

theorem unparsable_timestamp_file_counterexample:
  "float_of_str example_env (py_strip ''not-a-number'') = None \<and>
   fst (run example_env (flux_down_world (FileText ''not-a-number'')) None) = 0 \<and>
   fst (run example_env
          (example_world (FileText ''not-a-number'') [named_job] example_job_data) (Some 5)) = 0 \<and>
   syslog_log (snd (run example_env
          (example_world (FileText ''not-a-number'') [named_job] example_job_data) (Some 5))) = [] \<and>
   field_values rec_job ''id'' (stdout (snd (run example_env
          (example_world (FileText ''not-a-number'') [named_job] example_job_data) (Some 5))))
     = [Some (PInt 7)]"
proof -
  have parse: "float_of_str example_env (py_strip ''not-a-number'') = None"
    by (simp add: example_env_def py_strip_def is_space_def decimal_literal_def)
  have down: "fst (run example_env (flux_down_world (FileText ''not-a-number'')) None) = 0"
    by (simp add: run_def main_def fetch_new_jobs_def flux_down_world_def example_world_def)
  let ?W = "example_world (FileText ''not-a-number'') [named_job] example_job_data"
  have fetched: "fetch_new_jobs example_env ?W (optional_int (Some 5)) initial_state =
      (Inr [named_job(''jobspec'' \<mapsto> PDict [(''attributes'',
              PDict [(''system'',
                PDict [(''duration'', PInt 60), (''bank'', PStr ''physics''),
                       (''queue'', PStr ''batch'')])])],
            ''duration'' \<mapsto> PInt 60, ''bank'' \<mapsto> PStr ''physics'',
            ''queue'' \<mapsto> PStr ''batch'', ''project'' \<mapsto> PNone)],
       initial_state\<lparr> queue_timelimits := [''batch'' \<mapsto> PInt 3600],
                       requests := [ConfigGet, JobListInactive (PInt 5), KvsLookup (PInt 7)] \<rparr>)"
    by (simp add: fetch_new_jobs_def optional_int_def example_world_def resolve_timestamp_def
        get_queue_info_def read_queue_info_def example_config_def example_job_data_def
        py_get_def queue_duration_def list_jobs_def get_jobs_def send_def enrich_job_def
        add_jobspec_def system_attributes_def add_eventlog_def named_job_def initial_state_def)
  have since: "fst (run example_env ?W (Some 5)) = 0 \<and>
      syslog_log (snd (run example_env ?W (Some 5))) = [] \<and>
      field_values rec_job ''id'' (stdout (snd (run example_env ?W (Some 5)))) = [Some (PInt 7)]"
    unfolding run_def main_def fetched
    by (simp add: field_values_def named_job_def initial_state_def
        batch_defs step_defs op_defs example_defs)
  from parse down since show ?thesis by blast
qed

text \<open>
  Claim C7, amended: when \<^verbatim>\<open>--since\<close> is not given and the connection to Flux
  succeeds, a timestamp file whose stripped content is not a float makes the run log
  the error, exit with status 1, send no request and print no record.
\<close>

theorem unparsable_timestamp_file_exits:
  assumes "flux_connect W = None" and "timestamp_file W = FileText txt"
    and "float_of_str E (py_strip txt) = None"
  shows "fst (run E W None) = 1 \<and>
    syslog_log (snd (run E W None)) = [''could not extract timestamp from Flux job log file''] \<and>
    stdout (snd (run E W None)) = [] \<and>
    requests (snd (run E W None)) = []"
  using assms
  by (simp add: run_def main_def fetch_new_jobs_def resolve_timestamp_def optional_int_def
      syslog_def initial_state_def)

theorem unparsable_timestamp_file_exits_witness:
  "flux_connect (example_world (FileText ''not-a-number'') [named_job] example_job_data) = None \<and>
   timestamp_file (example_world (FileText ''not-a-number'') [named_job] example_job_data)
     = FileText ''not-a-number'' \<and>
   float_of_str example_env (py_strip ''not-a-number'') = None \<and>
   fst (run example_env
          (example_world (FileText ''not-a-number'') [named_job] example_job_data) None) = 1 \<and>
   stdout (snd (run example_env
          (example_world (FileText ''not-a-number'') [named_job] example_job_data) None)) = []"
proof -
  let ?W = "example_world (FileText ''not-a-number'') [named_job] example_job_data"
  have conn: "flux_connect ?W = None"
    by (simp add: example_world_def)
  have tsfile: "timestamp_file ?W = FileText ''not-a-number''"
    by (simp add: example_world_def)
  have parse: "float_of_str example_env (py_strip ''not-a-number'') = None"
    by (simp add: example_env_def py_strip_def is_space_def decimal_literal_def)
  from unparsable_timestamp_file_exits [OF conn tsfile parse]
  have "fst (run example_env ?W None) = 1" "stdout (snd (run example_env ?W None)) = []"
    by simp_all
  with conn tsfile parse show ?thesis by blast
qed

end
